theory Spec2Isabelle
  imports Complex_Main "HOL-Library.Finite_Map"
begin

section \<open>Spatial key codec\<close>

text \<open>
  \<^verbatim>\<open>VoxelWorld.tsx\<close> imports \<^verbatim>\<open>keyFromPosition\<close> from \<^verbatim>\<open>../../lib/voxelWorld\<close>. The
  registry is a \<^verbatim>\<open>Map<string, VoxelRegistryEntry>\<close>, so a key is a string. A grid
  coordinate is an integer triple; JavaScript prints an integer in decimal, with a
  leading minus sign when it is negative.
\<close>

type_synonym coordinate = "int \<times> int \<times> int"

definition digitChar :: "nat \<Rightarrow> char" where
  "digitChar d = ''0123456789'' ! d"

function digitsOf :: "nat \<Rightarrow> string" where
  "digitsOf n = (if n < 10 then [digitChar n] else digitsOf (n div 10) @ [digitChar (n mod 10)])"
  by pat_completeness auto
termination
  by (relation "measure (\<lambda>n. n)") auto

declare digitsOf.simps [simp del]

definition numberToString :: "int \<Rightarrow> string" where
  "numberToString i = (if i < 0 then CHR ''-'' # digitsOf (nat (- i)) else digitsOf (nat i))"

text \<open>
  Modelled from the spec: \<^verbatim>\<open>keyFromPosition\<close> of \<^verbatim>\<open>lib/voxelWorld\<close>, whose source is
  missing. The spec describes it as the deterministic concatenation \<^verbatim>\<open>"x,y,z"\<close> of
  the three integer coordinates.
\<close>

definition keyFromPosition :: "int \<Rightarrow> int \<Rightarrow> int \<Rightarrow> string" where
  "keyFromPosition px py pz =
     numberToString px @ '','' @ numberToString py @ '','' @ numberToString pz"

definition keyOf :: "coordinate \<Rightarrow> string" where
  "keyOf p = (case p of (px, py, pz) \<Rightarrow> keyFromPosition px py pz)"

section \<open>Vectors and the camera\<close>

text \<open>
  A \<^verbatim>\<open>THREE.Vector3\<close> of the movement code. Its numbers are real numbers here: the
  formulas of a tick are the source's, without the rounding of each operation. Where
  the rounding decides (falling to the floor over many ticks), lines 115 to 124 are
  modelled again in binary64 arithmetic, further down.
\<close>

record vector3 =
  vec_x :: real
  vec_y :: real
  vec_z :: real

definition vector0 :: vector3 where
  "vector0 = \<lparr>vec_x = 0, vec_y = 0, vec_z = 0\<rparr>"

definition lengthSq :: "vector3 \<Rightarrow> real" where
  "lengthSq v = vec_x v * vec_x v + vec_y v * vec_y v + vec_z v * vec_z v"

definition vectorLength :: "vector3 \<Rightarrow> real" where
  "vectorLength v = sqrt (lengthSq v)"

definition multiplyScalar :: "vector3 \<Rightarrow> real \<Rightarrow> vector3" where
  "multiplyScalar v k = \<lparr>vec_x = vec_x v * k, vec_y = vec_y v * k, vec_z = vec_z v * k\<rparr>"

definition divideScalar :: "vector3 \<Rightarrow> real \<Rightarrow> vector3" where
  "divideScalar v k = multiplyScalar v (1 / k)"

text \<open>\<^verbatim>\<open>normalize()\<close> is \<^verbatim>\<open>divideScalar(length() || 1)\<close>.\<close>

definition normalize :: "vector3 \<Rightarrow> vector3" where
  "normalize v = divideScalar v (if vectorLength v = 0 then 1 else vectorLength v)"

definition crossVectors :: "vector3 \<Rightarrow> vector3 \<Rightarrow> vector3" where
  "crossVectors a b =
     \<lparr>vec_x = vec_y a * vec_z b - vec_z a * vec_y b,
      vec_y = vec_z a * vec_x b - vec_x a * vec_z b,
      vec_z = vec_x a * vec_y b - vec_y a * vec_x b\<rparr>"

definition addScaledVector :: "vector3 \<Rightarrow> vector3 \<Rightarrow> real \<Rightarrow> vector3" where
  "addScaledVector p v k =
     \<lparr>vec_x = vec_x p + vec_x v * k, vec_y = vec_y p + vec_y v * k, vec_z = vec_z p + vec_z v * k\<rparr>"

text \<open>
  The camera under \<^verbatim>\<open>PointerLockControls\<close>: its position, and the first column of its
  matrix (its local right axis). Pointer-lock look control turns the camera by yaw and
  pitch only, so the right axis is horizontal; \<^verbatim>\<open>moveRight\<close> and \<^verbatim>\<open>moveForward\<close> of the
  library move the camera parallel to the xz-plane, with \<^verbatim>\<open>camera.up\<close> the y axis.
\<close>

record camera =
  cameraPosition :: vector3
  rightX :: real
  rightZ :: real

definition cameraUp :: vector3 where
  "cameraUp = \<lparr>vec_x = 0, vec_y = 1, vec_z = 0\<rparr>"

definition matrixColumn0 :: "camera \<Rightarrow> vector3" where
  "matrixColumn0 c = \<lparr>vec_x = rightX c, vec_y = 0, vec_z = rightZ c\<rparr>"

definition moveRight :: "real \<Rightarrow> camera \<Rightarrow> camera" where
  "moveRight distance c =
     c\<lparr>cameraPosition := addScaledVector (cameraPosition c) (matrixColumn0 c) distance\<rparr>"

definition moveForward :: "real \<Rightarrow> camera \<Rightarrow> camera" where
  "moveForward distance c =
     c\<lparr>cameraPosition :=
         addScaledVector (cameraPosition c) (crossVectors cameraUp (matrixColumn0 c)) distance\<rparr>"

section \<open>Scene objects and the voxel registry\<close>

datatype geometry = BoxGeometry nat nat nat

datatype material = MeshStandardMaterial nat

text \<open>
  \<^verbatim>\<open>userData\<close> of a scene object. An object without the \<^verbatim>\<open>isVoxel\<close> tag has
  \<^verbatim>\<open>isVoxel = False\<close>. Voxels sit on integer grid coordinates and the face normals of an
  axis-aligned unit cube are integer vectors.
\<close>

record userData =
  isVoxel :: bool
  position :: coordinate
  materialKey :: string

text \<open>
  A scene object. \<^verbatim>\<open>objectId\<close> is the identity of the JavaScript object: the scene
  removes an object by identity, and two objects of a scene never share an id.
\<close>

record object3d =
  objectId :: nat
  meshPosition :: coordinate
  meshGeometry :: geometry
  meshMaterial :: material
  userData :: userData

record triangleFace =
  normal :: coordinate

text \<open>One result of \<^verbatim>\<open>raycaster.intersectObjects\<close>.\<close>

record intersection =
  face :: "triangleFace option"
  object :: object3d

text \<open>\<^verbatim>\<open>VoxelRegistryEntry\<close>, with the fields the component stores in it.\<close>

record entry =
  mesh :: object3d
  geometry :: geometry
  material :: material
  entryMaterialKey :: string

type_synonym registry = "(string, entry) fmap"

definition registrySize :: "registry \<Rightarrow> nat" where
  "registrySize m = fcard (fmdom m)"

definition addCoordinate :: "coordinate \<Rightarrow> coordinate \<Rightarrow> coordinate" where
  "addCoordinate p q =
     (case p of (px, py, pz) \<Rightarrow> case q of (qx, qy, qz) \<Rightarrow> (px + qx, py + qy, pz + qz))"

section \<open>The component state\<close>

text \<open>
  The telemetry sink receives what the component passes to \<^verbatim>\<open>setFps\<close>,
  \<^verbatim>\<open>setPosition\<close> and \<^verbatim>\<open>setBlockCount\<close>. \<^verbatim>\<open>Math.round(1 / delta)\<close> is
  \<^verbatim>\<open>Infinity\<close> when \<^verbatim>\<open>delta\<close> is 0.
\<close>

datatype fpsValue = Finite int | Infinity

datatype publication = Fps fpsValue | Position vector3 | BlockCount nat

text \<open>
  The refs of the component. \<^verbatim>\<open>now\<close> is the host clock that \<^verbatim>\<open>performance.now()\<close>
  reads, in milliseconds; \<^verbatim>\<open>sink\<close> is the log of the publications, newest first, each
  with the host clock at the call. \<^verbatim>\<open>nextObjectId\<close> is the id the next scene object
  gets.
\<close>

record world =
  now :: real
  cameraRef :: "camera option"
  controlsRef :: bool
  sceneRef :: "object3d list option"
  velocityRef :: vector3
  directionRef :: vector3
  keysRef :: "string set"
  voxelsRef :: registry
  lastFrameRef :: real
  nextObjectId :: nat
  sink :: "(real \<times> publication) list"

definition MOVE_SPEED :: real where "MOVE_SPEED = 12"
definition SPRINT_MULTIPLIER :: real where "SPRINT_MULTIPLIER = 2.1"
definition GRAVITY :: real where "GRAVITY = 30"
definition JUMP_FORCE :: real where "JUMP_FORCE = 12"
definition TERMINAL_VELOCITY :: real where "TERMINAL_VELOCITY = 48"

definition publish :: "publication \<Rightarrow> world \<Rightarrow> world" where
  "publish p s = s\<lparr>sink := (now s, p) # sink s\<rparr>"

definition setBlockCount :: "nat \<Rightarrow> world \<Rightarrow> world" where
  "setBlockCount n s = publish (BlockCount n) s"

definition setFps :: "fpsValue \<Rightarrow> world \<Rightarrow> world" where
  "setFps v s = publish (Fps v) s"

definition setPosition :: "vector3 \<Rightarrow> world \<Rightarrow> world" where
  "setPosition v s = publish (Position v) s"

section \<open>Picking and editing: \<^verbatim>\<open>interactWithVoxel\<close>\<close>

datatype mode = Add | Remove

text \<open>
  \<^verbatim>\<open>intersects\<close> is what \<^verbatim>\<open>raycaster.intersectObjects(scene.children, false)\<close> returns,
  nearest first. \<^verbatim>\<open>scene.remove\<close> takes the object out of the children by identity,
  \<^verbatim>\<open>scene.add\<close> appends the new mesh. \<^verbatim>\<open>removeVoxel\<close> is the remove branch of
  \<^verbatim>\<open>interactWithVoxel\<close> (lines 51 to 59) and \<^verbatim>\<open>addVoxel\<close> its add branch (lines 61 to
  83).
\<close>

definition removeVoxel :: "intersection \<Rightarrow> object3d list \<Rightarrow> world \<Rightarrow> world" where
  "removeVoxel intersect scene s =
     (case position (userData (object intersect)) of
        (x, y, z) \<Rightarrow>
          let key = keyFromPosition x y z in
          if y \<le> 0 then s
          else
            let s1 = s\<lparr>sceneRef := Some (remove1 (object intersect) scene)\<rparr>;
                s2 = s1\<lparr>voxelsRef := fmdrop key (voxelsRef s1)\<rparr>
            in setBlockCount (registrySize (voxelsRef s2)) s2)"

definition addVoxel :: "intersection \<Rightarrow> object3d list \<Rightarrow> world \<Rightarrow> world" where
  "addVoxel intersect scene s =
     (case face intersect of
        None \<Rightarrow> s
      | Some f \<Rightarrow>
          let voxel = position (userData (object intersect));
              targetPosition = addCoordinate voxel (normal f);
              key = keyOf targetPosition
          in
          if key |\<in>| fmdom (voxelsRef s) then s
          else
            let found = fmlookup (voxelsRef s) (keyOf voxel);
                mat = (case found of Some e \<Rightarrow> material e
                       | None \<Rightarrow> MeshStandardMaterial 0x9ccf63);
                geo = (case found of Some e \<Rightarrow> geometry e | None \<Rightarrow> BoxGeometry 1 1 1);
                mk = (case found of Some e \<Rightarrow> entryMaterialKey e | None \<Rightarrow> ''grass'');
                newMesh = \<lparr>objectId = nextObjectId s, meshPosition = targetPosition,
                           meshGeometry = geo, meshMaterial = mat,
                           userData = \<lparr>isVoxel = True, position = targetPosition,
                                        materialKey = mk\<rparr>\<rparr>;
                s1 = s\<lparr>nextObjectId := Suc (nextObjectId s), sceneRef := Some (scene @ [newMesh])\<rparr>;
                s2 = s1\<lparr>voxelsRef :=
                         fmupd key \<lparr>mesh = newMesh, geometry = geo,
                                    material = meshMaterial newMesh, entryMaterialKey = mk\<rparr>
                           (voxelsRef s1)\<rparr>
            in setBlockCount (registrySize (voxelsRef s2)) s2)"

definition interactWithVoxel :: "mode \<Rightarrow> intersection list \<Rightarrow> world \<Rightarrow> world" where
  "interactWithVoxel m intersects s =
     (case cameraRef s of
        None \<Rightarrow> s
      | Some cam \<Rightarrow>
          (case sceneRef s of
             None \<Rightarrow> s
           | Some scene \<Rightarrow>
               (case find (\<lambda>hit. isVoxel (userData (object hit))) intersects of
                  None \<Rightarrow> s
                | Some intersect \<Rightarrow>
                    if m = Remove then removeVoxel intersect scene s
                    else addVoxel intersect scene s)))"

section \<open>Movement: \<^verbatim>\<open>updateMovement\<close>\<close>

definition intent :: "string set \<Rightarrow> vector3" where
  "intent keys =
     (let d0 = vector0;
          d1 = (if ''KeyW'' \<in> keys then d0\<lparr>vec_z := vec_z d0 - 1\<rparr> else d0);
          d2 = (if ''KeyS'' \<in> keys then d1\<lparr>vec_z := vec_z d1 + 1\<rparr> else d1);
          d3 = (if ''KeyA'' \<in> keys then d2\<lparr>vec_x := vec_x d2 - 1\<rparr> else d2);
          d4 = (if ''KeyD'' \<in> keys then d3\<lparr>vec_x := vec_x d3 + 1\<rparr> else d3)
      in normalize d4)"

definition speedOf :: "string set \<Rightarrow> real" where
  "speedOf keys =
     (let sprint = (''ShiftLeft'' \<in> keys \<or> ''ShiftRight'' \<in> keys);
          moveMultiplier = (if sprint then SPRINT_MULTIPLIER else 1)
      in MOVE_SPEED * moveMultiplier)"

text \<open>Lines 110 to 113: the intent, when it is not the zero vector, is injected into the velocity.\<close>

definition accelerate :: "string set \<Rightarrow> real \<Rightarrow> vector3 \<Rightarrow> vector3" where
  "accelerate keys delta v =
     (let speed = speedOf keys;
          direction = intent keys
      in if lengthSq direction > 0
         then v\<lparr>vec_x := vec_x v - vec_x direction * speed * delta,
                vec_z := vec_z v - vec_z direction * speed * delta\<rparr>
         else v)"

text \<open>Line 115.\<close>

definition applyGravity :: "real \<Rightarrow> vector3 \<Rightarrow> vector3" where
  "applyGravity delta v = v\<lparr>vec_y := max (vec_y v - GRAVITY * delta) (- TERMINAL_VELOCITY)\<rparr>"

text \<open>Lines 117 to 119.\<close>

definition displace :: "real \<Rightarrow> vector3 \<Rightarrow> camera \<Rightarrow> camera" where
  "displace delta v cam =
     (let c1 = moveRight (- vec_x v * delta) cam;
          c2 = moveForward (- vec_z v * delta) c1;
          p2 = cameraPosition c2
      in c2\<lparr>cameraPosition := p2\<lparr>vec_y := vec_y p2 + vec_y v * delta\<rparr>\<rparr>)"

text \<open>Lines 126 and 127.\<close>

definition damp :: "real \<Rightarrow> vector3 \<Rightarrow> vector3" where
  "damp delta v =
     (let v1 = v\<lparr>vec_x := vec_x v - vec_x v * 8 * delta\<rparr>
      in v1\<lparr>vec_z := vec_z v1 - vec_z v1 * 8 * delta\<rparr>)"

definition updateMovement :: "real \<Rightarrow> world \<Rightarrow> world" where
  "updateMovement delta s =
     (case cameraRef s of
        None \<Rightarrow> s
      | Some cam \<Rightarrow>
          if \<not> controlsRef s then s
          else
            let keys = keysRef s;
                v1 = accelerate keys delta (velocityRef s);
                v2 = applyGravity delta v1;
                c3 = displace delta v2 cam;
                below = (vec_y (cameraPosition c3) < 3);
                v3 = (if below then v2\<lparr>vec_y := 0\<rparr> else v2);
                c4 = (if below then c3\<lparr>cameraPosition := (cameraPosition c3)\<lparr>vec_y := 3\<rparr>\<rparr> else c3)
            in s\<lparr>directionRef := intent keys, velocityRef := damp delta v3, cameraRef := Some c4\<rparr>)"

section \<open>Lines 115 to 124 in binary64 arithmetic\<close>

text \<open>
  A JavaScript number is an IEEE 754 binary64 value, and every arithmetic operation
  returns the exact result rounded to the nearest such value, ties to the one with an
  even significand. \<^verbatim>\<open>roundToDouble\<close> is that rounding with an unbounded exponent above:
  the spacing of the values around \<open>x\<close> is \<open>2\<close> to the power \<open>e - 52\<close>, where \<open>e\<close> is the
  binary exponent of \<open>x\<close>, and no less than \<open>- 1022\<close> (below it the values are the
  subnormal ones, evenly spaced).
\<close>

definition roundEven :: "real \<Rightarrow> int" where
  "roundEven t =
     (let f = \<lfloor>t\<rfloor>; r = t - of_int f
      in if r < 1 / 2 then f else if 1 / 2 < r then f + 1 else if even f then f else f + 1)"

definition exponentOf :: "real \<Rightarrow> int" where
  "exponentOf x = max \<lfloor>log 2 \<bar>x\<bar>\<rfloor> (- 1022)"

definition ulpOf :: "real \<Rightarrow> real" where
  "ulpOf x = 2 powr (of_int (exponentOf x) - 52)"

definition roundToDouble :: "real \<Rightarrow> real" where
  "roundToDouble x = (if x = 0 then 0 else ulpOf x * of_int (roundEven (x / ulpOf x)))"

text \<open>
  A result that rounds to \<open>2\<close> to the power 1024 or beyond is an infinity. The sign of a
  zero is not represented: addition, subtraction, multiplication, \<^verbatim>\<open>Math.max\<close> and
  \<^verbatim>\<open><\<close> give the same number for either zero.
\<close>

definition overflowBound :: real where
  "overflowBound = 2 powr 1024"

datatype double = Num real | PlusInfinity | MinusInfinity | NotANumber

definition rnd64 :: "real \<Rightarrow> double" where
  "rnd64 x =
     (let r = roundToDouble x
      in if overflowBound \<le> r then PlusInfinity
         else if r \<le> - overflowBound then MinusInfinity
         else Num r)"

text \<open>The operators \<^verbatim>\<open>-x\<close>, \<^verbatim>\<open>+\<close>, \<^verbatim>\<open>-\<close>, \<^verbatim>\<open>*\<close>, \<^verbatim>\<open>Math.max\<close> and \<^verbatim>\<open><\<close> on numbers.\<close>

fun fneg :: "double \<Rightarrow> double" where
  "fneg (Num a) = Num (- a)"
| "fneg PlusInfinity = MinusInfinity"
| "fneg MinusInfinity = PlusInfinity"
| "fneg NotANumber = NotANumber"

fun fadd :: "double \<Rightarrow> double \<Rightarrow> double" where
  "fadd (Num a) (Num b) = rnd64 (a + b)"
| "fadd NotANumber b = NotANumber"
| "fadd a NotANumber = NotANumber"
| "fadd PlusInfinity MinusInfinity = NotANumber"
| "fadd MinusInfinity PlusInfinity = NotANumber"
| "fadd PlusInfinity b = PlusInfinity"
| "fadd MinusInfinity b = MinusInfinity"
| "fadd a PlusInfinity = PlusInfinity"
| "fadd a MinusInfinity = MinusInfinity"

definition fsub :: "double \<Rightarrow> double \<Rightarrow> double" where
  "fsub a b = fadd a (fneg b)"

fun infinityOfSign :: "bool \<Rightarrow> double" where
  "infinityOfSign True = PlusInfinity"
| "infinityOfSign False = MinusInfinity"

fun fmul :: "double \<Rightarrow> double \<Rightarrow> double" where
  "fmul (Num a) (Num b) = rnd64 (a * b)"
| "fmul NotANumber b = NotANumber"
| "fmul a NotANumber = NotANumber"
| "fmul (Num a) PlusInfinity = (if a = 0 then NotANumber else infinityOfSign (0 < a))"
| "fmul (Num a) MinusInfinity = (if a = 0 then NotANumber else infinityOfSign (a < 0))"
| "fmul PlusInfinity (Num b) = (if b = 0 then NotANumber else infinityOfSign (0 < b))"
| "fmul MinusInfinity (Num b) = (if b = 0 then NotANumber else infinityOfSign (b < 0))"
| "fmul PlusInfinity PlusInfinity = PlusInfinity"
| "fmul MinusInfinity MinusInfinity = PlusInfinity"
| "fmul PlusInfinity MinusInfinity = MinusInfinity"
| "fmul MinusInfinity PlusInfinity = MinusInfinity"

fun fmax :: "double \<Rightarrow> double \<Rightarrow> double" where
  "fmax (Num a) (Num b) = Num (max a b)"
| "fmax NotANumber b = NotANumber"
| "fmax a NotANumber = NotANumber"
| "fmax PlusInfinity b = PlusInfinity"
| "fmax a PlusInfinity = PlusInfinity"
| "fmax MinusInfinity b = b"
| "fmax a MinusInfinity = a"

fun fless :: "double \<Rightarrow> double \<Rightarrow> bool" where
  "fless (Num a) (Num b) = (a < b)"
| "fless NotANumber b = False"
| "fless a NotANumber = False"
| "fless a MinusInfinity = False"
| "fless PlusInfinity b = False"
| "fless MinusInfinity b = True"
| "fless a PlusInfinity = True"

text \<open>
  The two numbers that lines 115 to 124 of \<^verbatim>\<open>updateMovement\<close> read and write,
  \<^verbatim>\<open>camera.position.y\<close> and \<^verbatim>\<open>velocity.y\<close>, and those lines on them:
  \<^verbatim>\<open>velocity.y = Math.max(velocity.y - GRAVITY * delta, -TERMINAL_VELOCITY)\<close>,
  \<^verbatim>\<open>camera.position.y += velocity.y * delta\<close>, and the floor clamp. Between the two,
  \<^verbatim>\<open>moveRight\<close> and \<^verbatim>\<open>moveForward\<close> add a horizontal vector to the position, which leaves
  \<^verbatim>\<open>camera.position.y\<close> as it is.
\<close>

record vertical64 =
  cameraY64 :: double
  velocityY64 :: double

definition updateVertical64 :: "double \<Rightarrow> vertical64 \<Rightarrow> vertical64" where
  "updateVertical64 delta s =
     (let vy = fmax (fsub (velocityY64 s) (fmul (Num GRAVITY) delta)) (Num (- TERMINAL_VELOCITY));
          y = fadd (cameraY64 s) (fmul vy delta)
      in if fless y (Num 3) then \<lparr>cameraY64 = Num 3, velocityY64 = Num 0\<rparr>
         else \<lparr>cameraY64 = y, velocityY64 = vy\<rparr>)"

section \<open>Input handlers and the frame loop\<close>

definition onKeyDown :: "string \<Rightarrow> world \<Rightarrow> world" where
  "onKeyDown code s =
     (let s1 = s\<lparr>keysRef := insert code (keysRef s)\<rparr> in
      if code = ''Space'' \<and> \<bar>vec_y (velocityRef s1)\<bar> < 0.05
      then s1\<lparr>velocityRef := (velocityRef s1)\<lparr>vec_y := JUMP_FORCE\<rparr>\<rparr>
      else s1)"

definition onKeyUp :: "string \<Rightarrow> world \<Rightarrow> world" where
  "onKeyUp code s = s\<lparr>keysRef := keysRef s - {code}\<rparr>"

definition onPointerLockChange :: "bool \<Rightarrow> world \<Rightarrow> world" where
  "onPointerLockChange isLocked s =
     (if \<not> isLocked then s\<lparr>keysRef := {}, velocityRef := vector0\<rparr> else s)"

text \<open>
  \<^verbatim>\<open>onMouseDown\<close>: \<^verbatim>\<open>locked\<close> says whether the pointer is locked on the canvas, and
  \<^verbatim>\<open>button\<close> is \<^verbatim>\<open>event.button\<close>.
\<close>

definition onMouseDown :: "bool \<Rightarrow> nat \<Rightarrow> intersection list \<Rightarrow> world \<Rightarrow> world" where
  "onMouseDown locked button intersects s =
     (if \<not> locked then s
      else interactWithVoxel (if button = 2 then Add else Remove) intersects s)"

definition frameDelta :: "real \<Rightarrow> real" where
  "frameDelta clockDelta = min clockDelta 0.05"

definition fpsOf :: "real \<Rightarrow> fpsValue" where
  "fpsOf delta = (if delta = 0 then Infinity else Finite (round (1 / delta)))"

text \<open>
  One frame. \<^verbatim>\<open>clockDelta\<close> is what \<^verbatim>\<open>clock.getDelta()\<close> returns. The loop reads the
  camera it created itself, which is the one \<^verbatim>\<open>cameraRef\<close> holds once the component is
  mounted; without a camera the read of \<^verbatim>\<open>camera.position\<close> would throw before any
  setter is called.
\<close>

definition animate :: "real \<Rightarrow> world \<Rightarrow> world" where
  "animate clockDelta s =
     (let delta = frameDelta clockDelta;
          s1 = updateMovement delta s;
          elapsed = now s1 - lastFrameRef s1
      in
      if elapsed \<ge> 250 then
        (case cameraRef s1 of
           None \<Rightarrow> s1
         | Some cam \<Rightarrow>
             let s2 = setFps (fpsOf delta) s1;
                 s3 = setPosition (cameraPosition cam) s2
             in s3\<lparr>lastFrameRef := now s3\<rparr>)
      else s1)"

text \<open>
  The host delivers the events one at a time; each handler runs to its end with the host
  clock at the time of the event.
\<close>

datatype event =
  Frame real
| MouseDown bool nat "intersection list"
| KeyDown string
| KeyUp string
| PointerLockChange bool

fun dispatch :: "event \<Rightarrow> world \<Rightarrow> world" where
  "dispatch (Frame clockDelta) s = animate clockDelta s"
| "dispatch (MouseDown locked button intersects) s = onMouseDown locked button intersects s"
| "dispatch (KeyDown code) s = onKeyDown code s"
| "dispatch (KeyUp code) s = onKeyUp code s"
| "dispatch (PointerLockChange isLocked) s = onPointerLockChange isLocked s"

definition step :: "real \<times> event \<Rightarrow> world \<Rightarrow> world" where
  "step te s = dispatch (snd te) (s\<lparr>now := fst te\<rparr>)"

fun run :: "(real \<times> event) list \<Rightarrow> world \<Rightarrow> world" where
  "run [] s = s"
| "run (te # rest) s = run rest (step te s)"

section \<open>Observations\<close>

fun isFps :: "publication \<Rightarrow> bool" where
  "isFps (Fps v) = True"
| "isFps p = False"

fun isPosition :: "publication \<Rightarrow> bool" where
  "isPosition (Position v) = True"
| "isPosition p = False"

fun isBlockCount :: "publication \<Rightarrow> bool" where
  "isBlockCount (BlockCount n) = True"
| "isBlockCount p = False"

text \<open>The times at which the sink received a publication of one kind, newest first.\<close>

definition timesOf :: "(publication \<Rightarrow> bool) \<Rightarrow> (real \<times> publication) list \<Rightarrow> real list" where
  "timesOf kind pubs = map fst (filter (\<lambda>tp. kind (snd tp)) pubs)"

text \<open>Consecutive times, newest first, are at least 250 ms apart.\<close>

fun spaced :: "real list \<Rightarrow> bool" where
  "spaced (t2 # t1 # ts) = (t2 - t1 \<ge> 250 \<and> spaced (t1 # ts))"
| "spaced ts = True"

definition throttled :: "(real \<times> publication) list \<Rightarrow> bool" where
  "throttled pubs =
     (spaced (timesOf isFps pubs) \<and> spaced (timesOf isPosition pubs)
      \<and> spaced (timesOf isBlockCount pubs))"

section \<open>A small mounted world\<close>

text \<open>
  The state after the component is mounted (camera at \<^verbatim>\<open>(0, 18, 24)\<close>, looking down the
  negative z axis, nothing held, velocity zero), with a column of three grass voxels in
  place of the generated terrain.
\<close>

definition grassMesh :: "nat \<Rightarrow> coordinate \<Rightarrow> object3d" where
  "grassMesh i p =
     \<lparr>objectId = i, meshPosition = p, meshGeometry = BoxGeometry 1 1 1,
      meshMaterial = MeshStandardMaterial 0x9ccf63,
      userData = \<lparr>isVoxel = True, position = p, materialKey = ''grass''\<rparr>\<rparr>"

definition grassEntry :: "nat \<Rightarrow> coordinate \<Rightarrow> entry" where
  "grassEntry i p =
     \<lparr>mesh = grassMesh i p, geometry = BoxGeometry 1 1 1,
      material = MeshStandardMaterial 0x9ccf63, entryMaterialKey = ''grass''\<rparr>"

definition mountedCamera :: camera where
  "mountedCamera =
     \<lparr>cameraPosition = \<lparr>vec_x = 0, vec_y = 18, vec_z = 24\<rparr>, rightX = 1, rightZ = 0\<rparr>"

definition sampleScene :: "object3d list" where
  "sampleScene = [grassMesh 0 (5, 0, 5), grassMesh 1 (5, 3, 5), grassMesh 2 (5, 4, 5)]"

definition sampleWorld :: world where
  "sampleWorld =
     \<lparr>now = 0, cameraRef = Some mountedCamera, controlsRef = True,
      sceneRef = Some sampleScene,
      velocityRef = vector0, directionRef = vector0, keysRef = {},
      voxelsRef = fmupd ''5,4,5'' (grassEntry 2 (5, 4, 5))
                    (fmupd ''5,3,5'' (grassEntry 1 (5, 3, 5))
                       (fmupd ''5,0,5'' (grassEntry 0 (5, 0, 5)) fmempty)),
      lastFrameRef = 0, nextObjectId = 3, sink = []\<rparr>"

text \<open>The ray hits the face with normal \<^verbatim>\<open>n\<close> of the object.\<close>

definition hitOn :: "object3d \<Rightarrow> coordinate \<Rightarrow> intersection" where
  "hitOn obj n = \<lparr>face = Some \<lparr>normal = n\<rparr>, object = obj\<rparr>"

section \<open>Definitions used only in the proofs\<close>

subsection \<open>Reading a key back\<close>

definition digitValue :: "char \<Rightarrow> nat" where
  "digitValue c = length (takeWhile (\<lambda>d. d \<noteq> c) ''0123456789'')"

definition readDigits :: "string \<Rightarrow> nat" where
  "readDigits cs = foldl (\<lambda>acc c. 10 * acc + digitValue c) 0 cs"

definition isDigit :: "char \<Rightarrow> bool" where
  "isDigit c = (c \<in> set ''0123456789'')"

subsection \<open>Rounding and the resting state\<close>

definition denormalUlp :: real where
  "denormalUlp = 2 powr (- 1074)"

definition rest64 :: vertical64 where
  "rest64 = \<lparr>cameraY64 = Num 3, velocityY64 = Num 0\<rparr>"


subsection \<open>The invariant of the throttle\<close>

fun headIs :: "real list \<Rightarrow> real \<Rightarrow> bool" where
  "headIs [] x = True"
| "headIs (t # ts) x = (t = x)"

definition frameInvariant :: "world \<Rightarrow> bool" where
  "frameInvariant s =
     (spaced (timesOf isFps (sink s))
      \<and> timesOf isPosition (sink s) = timesOf isFps (sink s)
      \<and> headIs (timesOf isFps (sink s)) (lastFrameRef s))"

section \<open>The key codec is injective\<close>

lemma below_ten: "d < (10::nat) \<Longrightarrow> d \<in> set [0, 1, 2, 3, 4, 5, 6, 7, 8, 9]"
  by (simp, arith)

lemma digitValue_digitChar: "d < 10 \<Longrightarrow> digitValue (digitChar d) = d"
  by (drule below_ten) (auto simp: digitValue_def digitChar_def)

lemma isDigit_digitChar: "d < 10 \<Longrightarrow> isDigit (digitChar d)"
  by (drule below_ten) (auto simp: isDigit_def digitChar_def)

lemma readDigits_snoc: "readDigits (cs @ [c]) = 10 * readDigits cs + digitValue c"
  by (simp add: readDigits_def)

lemma readDigits_digitsOf: "readDigits (digitsOf n) = n"
proof (induction n rule: digitsOf.induct)
  case (1 n)
  show ?case
  proof (cases "n < 10")
    case True
    then show ?thesis
      by (subst digitsOf.simps) (simp add: readDigits_def digitValue_digitChar)
  next
    case False
    with "1" have "readDigits (digitsOf (n div 10)) = n div 10" by simp
    with False show ?thesis
      by (subst digitsOf.simps) (simp add: readDigits_snoc digitValue_digitChar)
  qed
qed

lemma digitsOf_inject: "digitsOf m = digitsOf n \<Longrightarrow> m = n"
  by (metis readDigits_digitsOf)

lemma digitsOf_all_digits: "c \<in> set (digitsOf n) \<Longrightarrow> isDigit c"
proof (induction n rule: digitsOf.induct)
  case (1 n)
  show ?case
  proof (cases "n < 10")
    case True
    with "1.prems" show ?thesis
      by (subst (asm) digitsOf.simps) (simp add: isDigit_digitChar)
  next
    case False
    with "1.prems" have "c \<in> set (digitsOf (n div 10)) \<or> c = digitChar (n mod 10)"
      by (subst (asm) digitsOf.simps) auto
    with False "1.IH" show ?thesis
      by (auto simp: isDigit_digitChar)
  qed
qed

lemma digitsOf_nonempty: "digitsOf n \<noteq> []"
  by (subst digitsOf.simps) simp

lemma digitsOf_no_minus: "digitsOf n \<noteq> CHR ''-'' # cs"
proof
  assume "digitsOf n = CHR ''-'' # cs"
  then have "CHR ''-'' \<in> set (digitsOf n)" by simp
  then have "isDigit CHR ''-''" by (rule digitsOf_all_digits)
  then show False by (simp add: isDigit_def)
qed

lemma numberToString_inject: "numberToString i = numberToString j \<Longrightarrow> i = j"
proof -
  assume eq: "numberToString i = numberToString j"
  consider "i < 0" "j < 0" | "i < 0" "\<not> j < 0" | "\<not> i < 0" "j < 0" | "\<not> i < 0" "\<not> j < 0"
    by blast
  then show "i = j"
  proof cases
    case 1
    with eq have "nat (- i) = nat (- j)"
      by (auto simp: numberToString_def dest: digitsOf_inject)
    with 1 show ?thesis by simp
  next
    case 2
    with eq have "digitsOf (nat j) = CHR ''-'' # digitsOf (nat (- i))"
      by (simp add: numberToString_def)
    then show ?thesis by (simp add: digitsOf_no_minus)
  next
    case 3
    with eq have "digitsOf (nat i) = CHR ''-'' # digitsOf (nat (- j))"
      by (simp add: numberToString_def)
    then show ?thesis by (simp add: digitsOf_no_minus)
  next
    case 4
    with eq have "nat i = nat j"
      by (auto simp: numberToString_def dest: digitsOf_inject)
    with 4 show ?thesis by simp
  qed
qed

lemma numberToString_no_comma: "CHR '','' \<notin> set (numberToString i)"
proof
  assume "CHR '','' \<in> set (numberToString i)"
  then have "CHR '','' \<in> set (digitsOf (nat (- i))) \<or> CHR '','' \<in> set (digitsOf (nat i))"
    by (auto simp: numberToString_def split: if_splits)
  then have "isDigit CHR '',''"
    by (auto dest: digitsOf_all_digits)
  then show False by (simp add: isDigit_def)
qed

lemma comma_split:
  assumes "CHR '','' \<notin> set a" and "CHR '','' \<notin> set b"
    and "a @ CHR '','' # r = b @ CHR '','' # t"
  shows "a = b \<and> r = t"
  using assms
proof (induction a arbitrary: b)
  case Nil
  then show ?case by (cases b) auto
next
  case (Cons c a)
  then show ?case by (cases b) auto
qed

text \<open>
  C8: the key codec is a function of the three integers alone, and two integer
  coordinates have the same key exactly when they are the same coordinate; the
  comma-separated decimal rendering has no collisions on any integers.
\<close>

theorem keyFromPosition_injective:
  "(keyFromPosition x1 y1 z1 = keyFromPosition x2 y2 z2) = (x1 = x2 \<and> y1 = y2 \<and> z1 = z2)"
proof
  assume eq: "keyFromPosition x1 y1 z1 = keyFromPosition x2 y2 z2"
  then have e1: "numberToString x1 @ CHR '','' # (numberToString y1 @ CHR '','' # numberToString z1)
      = numberToString x2 @ CHR '','' # (numberToString y2 @ CHR '','' # numberToString z2)"
    by (simp add: keyFromPosition_def)
  have x: "numberToString x1 = numberToString x2"
    and r: "numberToString y1 @ CHR '','' # numberToString z1
      = numberToString y2 @ CHR '','' # numberToString z2"
    using comma_split [OF numberToString_no_comma numberToString_no_comma e1] by simp_all
  have y: "numberToString y1 = numberToString y2" and z: "numberToString z1 = numberToString z2"
    using comma_split [OF numberToString_no_comma numberToString_no_comma r] by simp_all
  from x y z show "x1 = x2 \<and> y1 = y2 \<and> z1 = z2"
    by (simp add: numberToString_inject)
next
  assume "x1 = x2 \<and> y1 = y2 \<and> z1 = z2"
  then show "keyFromPosition x1 y1 z1 = keyFromPosition x2 y2 z2" by simp
qed

section \<open>Editing the world\<close>

lemma keyFromPosition_simps:
  "keyFromPosition 5 0 5 = ''5,0,5''"
  "keyFromPosition 5 3 5 = ''5,3,5''"
  "keyFromPosition 5 4 5 = ''5,4,5''"
  "keyFromPosition 5 5 5 = ''5,5,5''"
  by (simp_all add: keyFromPosition_def numberToString_def digitsOf.simps digitChar_def)

lemma sampleWorld_refs:
  "cameraRef sampleWorld = Some mountedCamera"
  "sceneRef sampleWorld = Some sampleScene"
  "controlsRef sampleWorld"
  by (simp_all add: sampleWorld_def)

lemma find_hitOn:
  "find (\<lambda>h. isVoxel (userData (object h))) [hitOn (grassMesh i p) n] = Some (hitOn (grassMesh i p) n)"
  by (simp add: hitOn_def grassMesh_def)

lemma hitOn_simps:
  "position (userData (object (hitOn (grassMesh i p) n))) = p"
  "face (hitOn obj n) = Some \<lparr>normal = n\<rparr>"
  by (simp_all add: hitOn_def grassMesh_def)

text \<open>
  C1: in add mode, when the first voxel the ray hits sits at \<open>(x, y, z)\<close> and the face
  normal is \<open>(0, 1, 0)\<close>, the target cell is \<open>(x, y + 1, z)\<close>. If its key is already in
  the registry the whole state is left as it was. Otherwise the registry gains exactly
  one record, under the key of \<open>(x, y + 1, z)\<close>, whose mesh is a voxel at
  \<open>(x, y + 1, z)\<close>; that mesh is appended to the scene and the registry is one larger.
\<close>

theorem addAdjacentTo_up:
  assumes "cameraRef s = Some cam" and "sceneRef s = Some scene"
    and "find (\<lambda>h. isVoxel (userData (object h))) intersects = Some hit"
    and "position (userData (object hit)) = (x, y, z)"
    and "face hit = Some f" and "normal f = (0, 1, 0)"
  shows "if keyFromPosition x (y + 1) z |\<in>| fmdom (voxelsRef s)
         then interactWithVoxel Add intersects s = s
         else (\<exists>e. voxelsRef (interactWithVoxel Add intersects s)
                      = fmupd (keyFromPosition x (y + 1) z) e (voxelsRef s)
                  \<and> isVoxel (userData (mesh e))
                  \<and> position (userData (mesh e)) = (x, y + 1, z)
                  \<and> meshPosition (mesh e) = (x, y + 1, z)
                  \<and> sceneRef (interactWithVoxel Add intersects s) = Some (scene @ [mesh e])
                  \<and> registrySize (voxelsRef (interactWithVoxel Add intersects s))
                      = Suc (registrySize (voxelsRef s)))"
proof -
  have step: "interactWithVoxel Add intersects s = addVoxel hit scene s"
    using assms(1-3) by (simp add: interactWithVoxel_def)
  have target: "keyOf (addCoordinate (position (userData (object hit))) (normal f))
      = keyFromPosition x (y + 1) z"
    using assms(4,6) by (simp add: keyOf_def addCoordinate_def)
  show ?thesis
  proof (cases "keyFromPosition x (y + 1) z |\<in>| fmdom (voxelsRef s)")
    case True
    then show ?thesis
      using assms(5) target by (simp add: step addVoxel_def Let_def)
  next
    case False
    then show ?thesis
      using assms(4-6) target
      by (auto simp: step addVoxel_def Let_def setBlockCount_def publish_def registrySize_def
          fcard_finsert_disjoint addCoordinate_def)
  qed
qed

theorem addAdjacentTo_up_witness:
  "interactWithVoxel Add [hitOn (grassMesh 1 (5, 3, 5)) (0, 1, 0)] sampleWorld = sampleWorld
   \<and> (\<exists>e. voxelsRef (interactWithVoxel Add [hitOn (grassMesh 2 (5, 4, 5)) (0, 1, 0)] sampleWorld)
             = fmupd ''5,5,5'' e (voxelsRef sampleWorld)
           \<and> position (userData (mesh e)) = (5, 5, 5)
           \<and> sceneRef (interactWithVoxel Add [hitOn (grassMesh 2 (5, 4, 5)) (0, 1, 0)] sampleWorld)
               = Some (sampleScene @ [mesh e]))"
proof -
  have occupied: "keyFromPosition 5 (3 + 1) 5 |\<in>| fmdom (voxelsRef sampleWorld)"
    and free: "\<not> keyFromPosition 5 (4 + 1) 5 |\<in>| fmdom (voxelsRef sampleWorld)"
    by (simp_all add: keyFromPosition_simps sampleWorld_def)
  have up: "normal \<lparr>normal = (0, 1, 0)\<rparr> = (0, 1, 0)" by simp
  from addAdjacentTo_up [OF sampleWorld_refs(1,2)
      find_hitOn [of 1 "(5, 3, 5)" "(0, 1, 0)"] hitOn_simps(1) hitOn_simps(2) up] occupied
  have a: "interactWithVoxel Add [hitOn (grassMesh 1 (5, 3, 5)) (0, 1, 0)] sampleWorld = sampleWorld"
    by simp
  from addAdjacentTo_up [OF sampleWorld_refs(1,2)
      find_hitOn [of 2 "(5, 4, 5)" "(0, 1, 0)"] hitOn_simps(1) hitOn_simps(2) up] free
  have b: "\<exists>e. voxelsRef (interactWithVoxel Add [hitOn (grassMesh 2 (5, 4, 5)) (0, 1, 0)] sampleWorld)
             = fmupd ''5,5,5'' e (voxelsRef sampleWorld)
           \<and> position (userData (mesh e)) = (5, 5, 5)
           \<and> sceneRef (interactWithVoxel Add [hitOn (grassMesh 2 (5, 4, 5)) (0, 1, 0)] sampleWorld)
               = Some (sampleScene @ [mesh e])"
    by (simp add: keyFromPosition_simps) blast
  from a b show ?thesis by blast
qed

text \<open>
  C2: in remove mode, when the first voxel the ray hits has \<open>y \<le> 0\<close>, the whole state is
  left as it was, so no record is deleted and the registry keeps its size. When
  \<open>y > 0\<close>, the record under that voxel's key is deleted from the registry, and the mesh
  leaves the scene.
\<close>

theorem removeAt_floor_guard:
  assumes "cameraRef s = Some cam" and "sceneRef s = Some scene"
    and "find (\<lambda>h. isVoxel (userData (object h))) intersects = Some hit"
    and "position (userData (object hit)) = (x, y, z)"
  shows "if y \<le> 0
         then interactWithVoxel Remove intersects s = s
              \<and> registrySize (voxelsRef (interactWithVoxel Remove intersects s))
                  = registrySize (voxelsRef s)
         else voxelsRef (interactWithVoxel Remove intersects s)
                = fmdrop (keyFromPosition x y z) (voxelsRef s)
              \<and> fmlookup (voxelsRef (interactWithVoxel Remove intersects s)) (keyFromPosition x y z)
                  = None
              \<and> sceneRef (interactWithVoxel Remove intersects s) = Some (remove1 (object hit) scene)"
proof -
  have step: "interactWithVoxel Remove intersects s = removeVoxel hit scene s"
    using assms(1-3) by (simp add: interactWithVoxel_def)
  show ?thesis
    using assms(4) by (simp add: step removeVoxel_def Let_def setBlockCount_def publish_def)
qed

theorem removeAt_floor_guard_witness:
  "interactWithVoxel Remove [hitOn (grassMesh 0 (5, 0, 5)) (0, 1, 0)] sampleWorld = sampleWorld
   \<and> fmlookup (voxelsRef sampleWorld) ''5,4,5'' = Some (grassEntry 2 (5, 4, 5))
   \<and> fmlookup (voxelsRef (interactWithVoxel Remove [hitOn (grassMesh 2 (5, 4, 5)) (0, 1, 0)] sampleWorld))
        ''5,4,5'' = None
   \<and> voxelsRef (interactWithVoxel Remove [hitOn (grassMesh 2 (5, 4, 5)) (0, 1, 0)] sampleWorld)
       = fmdrop ''5,4,5'' (voxelsRef sampleWorld)"
  using removeAt_floor_guard [OF sampleWorld_refs(1,2)
      find_hitOn [of 0 "(5, 0, 5)" "(0, 1, 0)"] hitOn_simps(1)]
    removeAt_floor_guard [OF sampleWorld_refs(1,2)
      find_hitOn [of 2 "(5, 4, 5)" "(0, 1, 0)"] hitOn_simps(1)]
  by (simp add: keyFromPosition_simps) (simp add: sampleWorld_def)

text \<open>
  C10: in add mode, when the first voxel-tagged intersection carries no face, the whole
  state (registry and scene included) is left as it was.
\<close>

theorem add_without_face_noop:
  assumes "cameraRef s = Some cam" and "sceneRef s = Some scene"
    and "find (\<lambda>h. isVoxel (userData (object h))) intersects = Some hit"
    and "face hit = None"
  shows "interactWithVoxel Add intersects s = s"
  using assms by (simp add: interactWithVoxel_def addVoxel_def)

theorem add_without_face_noop_witness:
  "face \<lparr>face = None, object = grassMesh 2 (5, 4, 5)\<rparr> = None
   \<and> interactWithVoxel Add [\<lparr>face = None, object = grassMesh 2 (5, 4, 5)\<rparr>] sampleWorld
       = sampleWorld"
proof -
  have f: "find (\<lambda>h. isVoxel (userData (object h))) [\<lparr>face = None, object = grassMesh 2 (5, 4, 5)\<rparr>]
      = Some \<lparr>face = None, object = grassMesh 2 (5, 4, 5)\<rparr>"
    by (simp add: grassMesh_def)
  have n: "face \<lparr>face = None, object = grassMesh 2 (5, 4, 5)\<rparr> = None" by simp
  from add_without_face_noop [OF sampleWorld_refs(1,2) f n] n show ?thesis by simp
qed

section \<open>Movement\<close>

lemma lengthSq_pos_iff: "(lengthSq v > 0) = (v \<noteq> vector0)"
proof -
  have "(lengthSq v = 0) = (v = vector0)"
    by (cases v) (auto simp: lengthSq_def vector0_def sum_squares_eq_zero_iff add_nonneg_eq_0_iff)
  moreover have "lengthSq v \<ge> 0" by (simp add: lengthSq_def)
  ultimately show ?thesis by linarith
qed

lemma accelerate_simps:
  "vec_x (accelerate keys delta v)
     = (if intent keys \<noteq> vector0 then vec_x v - vec_x (intent keys) * speedOf keys * delta
        else vec_x v)"
  "vec_y (accelerate keys delta v) = vec_y v"
  "vec_z (accelerate keys delta v)
     = (if intent keys \<noteq> vector0 then vec_z v - vec_z (intent keys) * speedOf keys * delta
        else vec_z v)"
  by (simp_all add: accelerate_def Let_def lengthSq_pos_iff)

lemma applyGravity_simps:
  "vec_x (applyGravity delta v) = vec_x v"
  "vec_y (applyGravity delta v) = max (vec_y v - 30 * delta) (- 48)"
  "vec_z (applyGravity delta v) = vec_z v"
  by (simp_all add: applyGravity_def GRAVITY_def TERMINAL_VELOCITY_def)

lemma displace_simps:
  "vec_x (cameraPosition (displace delta v cam))
     = vec_x (cameraPosition cam) + rightX cam * (- vec_x v * delta)
        + rightZ cam * (- vec_z v * delta)"
  "vec_y (cameraPosition (displace delta v cam)) = vec_y (cameraPosition cam) + vec_y v * delta"
  "vec_z (cameraPosition (displace delta v cam))
     = vec_z (cameraPosition cam) + rightZ cam * (- vec_x v * delta)
        - rightX cam * (- vec_z v * delta)"
  by (simp_all add: displace_def Let_def moveRight_def moveForward_def addScaledVector_def
      matrixColumn0_def crossVectors_def cameraUp_def)

lemma damp_simps:
  "vec_x (damp delta v) = vec_x v - vec_x v * 8 * delta"
  "vec_y (damp delta v) = vec_y v"
  "vec_z (damp delta v) = vec_z v - vec_z v * 8 * delta"
  by (simp_all add: damp_def Let_def)

lemma speedOf_eq:
  "speedOf keys = 12 * (if ''ShiftLeft'' \<in> keys \<or> ''ShiftRight'' \<in> keys then 2.1 else 1)"
  by (simp add: speedOf_def MOVE_SPEED_def SPRINT_MULTIPLIER_def)

text \<open>One tick of a mounted component, stage by stage.\<close>

lemma updateMovement_ready:
  assumes "cameraRef s = Some cam" and "controlsRef s"
  shows "velocityRef (updateMovement delta s)
           = damp delta
               (if vec_y (cameraPosition (displace delta
                     (applyGravity delta (accelerate (keysRef s) delta (velocityRef s))) cam)) < 3
                then (applyGravity delta (accelerate (keysRef s) delta (velocityRef s)))\<lparr>vec_y := 0\<rparr>
                else applyGravity delta (accelerate (keysRef s) delta (velocityRef s)))"
    and "cameraRef (updateMovement delta s)
           = Some (if vec_y (cameraPosition (displace delta
                        (applyGravity delta (accelerate (keysRef s) delta (velocityRef s))) cam)) < 3
                   then (displace delta
                          (applyGravity delta (accelerate (keysRef s) delta (velocityRef s))) cam)
                          \<lparr>cameraPosition := (cameraPosition (displace delta
                             (applyGravity delta (accelerate (keysRef s) delta (velocityRef s))) cam))
                               \<lparr>vec_y := 3\<rparr>\<rparr>
                   else displace delta
                          (applyGravity delta (accelerate (keysRef s) delta (velocityRef s))) cam)"
    and "controlsRef (updateMovement delta s)"
  using assms by (simp_all add: updateMovement_def Let_def)

lemma updateMovement_frame:
  "sink (updateMovement delta s) = sink s"
  "lastFrameRef (updateMovement delta s) = lastFrameRef s"
  "now (updateMovement delta s) = now s"
  by (simp_all add: updateMovement_def Let_def split: option.split)

text \<open>
  C3: in a tick of a mounted component with elapsed time \<open>delta\<close>, the vertical velocity
  first becomes \<open>max (velocity.y - 30 * delta) (- 48)\<close>; that velocity times \<open>delta\<close> is
  added to the camera's Y; and if the resulting Y is below 3 (the floor height), the
  vertical velocity is set to 0 and Y to exactly 3.
\<close>

theorem updateMovement_vertical:
  assumes "cameraRef s = Some cam" and "controlsRef s"
  shows "let vy1 = max (vec_y (velocityRef s) - GRAVITY * delta) (- TERMINAL_VELOCITY);
             y1 = vec_y (cameraPosition cam) + vy1 * delta
         in GRAVITY = 30 \<and> TERMINAL_VELOCITY = 48
            \<and> (\<exists>cam'. cameraRef (updateMovement delta s) = Some cam'
                 \<and> vec_y (cameraPosition cam') = (if y1 < 3 then 3 else y1)
                 \<and> vec_y (velocityRef (updateMovement delta s)) = (if y1 < 3 then 0 else vy1))"
  by (simp add: updateMovement_ready [OF assms] Let_def damp_simps displace_simps
      applyGravity_simps accelerate_simps GRAVITY_def TERMINAL_VELOCITY_def)

theorem updateMovement_vertical_witness:
  "(\<exists>cam'. cameraRef (updateMovement 0.05 sampleWorld) = Some cam'
        \<and> vec_y (cameraPosition cam') = 17.925
        \<and> vec_y (velocityRef (updateMovement 0.05 sampleWorld)) = - 1.5)
   \<and> (\<exists>cam'. cameraRef (updateMovement 0.05
           (sampleWorld\<lparr>cameraRef := Some (mountedCamera\<lparr>cameraPosition := vector0\<lparr>vec_y := 3.01\<rparr>\<rparr>)\<rparr>))
          = Some cam'
        \<and> vec_y (cameraPosition cam') = 3
        \<and> vec_y (velocityRef (updateMovement 0.05
             (sampleWorld\<lparr>cameraRef := Some (mountedCamera\<lparr>cameraPosition := vector0\<lparr>vec_y := 3.01\<rparr>\<rparr>)\<rparr>)))
            = 0)"
  using updateMovement_vertical [of sampleWorld mountedCamera "0.05"]
    updateMovement_vertical [of "sampleWorld\<lparr>cameraRef := Some (mountedCamera\<lparr>cameraPosition := vector0\<lparr>vec_y := 3.01\<rparr>\<rparr>)\<rparr>"
      "mountedCamera\<lparr>cameraPosition := vector0\<lparr>vec_y := 3.01\<rparr>\<rparr>" "0.05"]
  by (auto simp: sampleWorld_def mountedCamera_def vector0_def Let_def GRAVITY_def
      TERMINAL_VELOCITY_def)

text \<open>
  C6: in a tick of a mounted component, the speed is 12, times 2.1 when a shift key is
  held; when the normalised intent is not the zero vector, intent times speed times
  \<open>delta\<close> is subtracted from the horizontal velocity; the camera is displaced with that
  velocity; and after the displacement the horizontal velocity loses 8 times \<open>delta\<close> of
  itself.
\<close>

theorem updateMovement_horizontal:
  assumes "cameraRef s = Some cam" and "controlsRef s"
  shows "let speed = MOVE_SPEED * (if ''ShiftLeft'' \<in> keysRef s \<or> ''ShiftRight'' \<in> keysRef s
                                   then SPRINT_MULTIPLIER else 1);
             d = intent (keysRef s);
             vx1 = (if d \<noteq> vector0 then vec_x (velocityRef s) - vec_x d * speed * delta
                    else vec_x (velocityRef s));
             vz1 = (if d \<noteq> vector0 then vec_z (velocityRef s) - vec_z d * speed * delta
                    else vec_z (velocityRef s))
         in MOVE_SPEED = 12 \<and> SPRINT_MULTIPLIER = 2.1
            \<and> vec_x (velocityRef (updateMovement delta s)) = vx1 - vx1 * 8 * delta
            \<and> vec_z (velocityRef (updateMovement delta s)) = vz1 - vz1 * 8 * delta
            \<and> (\<exists>cam'. cameraRef (updateMovement delta s) = Some cam'
                 \<and> vec_x (cameraPosition cam')
                     = vec_x (cameraPosition cam) + rightX cam * (- vx1 * delta)
                        + rightZ cam * (- vz1 * delta)
                 \<and> vec_z (cameraPosition cam')
                     = vec_z (cameraPosition cam) + rightZ cam * (- vx1 * delta)
                        - rightX cam * (- vz1 * delta))"
proof -
  have sp: "MOVE_SPEED * (if ''ShiftLeft'' \<in> keysRef s \<or> ''ShiftRight'' \<in> keysRef s
                          then SPRINT_MULTIPLIER else 1) = speedOf (keysRef s)"
    by (simp add: speedOf_def)
  show ?thesis
    unfolding Let_def sp
    by (simp add: updateMovement_ready [OF assms] damp_simps displace_simps
        applyGravity_simps accelerate_simps MOVE_SPEED_def SPRINT_MULTIPLIER_def,
        simp add: algebra_simps)
qed

lemma intent_forward_sprint:
  "intent {''KeyW'', ''ShiftLeft''} = \<lparr>vec_x = 0, vec_y = 0, vec_z = - 1\<rparr>"
  by (simp add: intent_def Let_def vector0_def normalize_def vectorLength_def lengthSq_def
      divideScalar_def multiplyScalar_def)

theorem updateMovement_horizontal_witness:
  "vec_z (velocityRef (updateMovement 0.05 (sampleWorld\<lparr>keysRef := {''KeyW'', ''ShiftLeft''}\<rparr>)))
     = 0.756
   \<and> vec_x (velocityRef (updateMovement 0.05 (sampleWorld\<lparr>keysRef := {''KeyW'', ''ShiftLeft''}\<rparr>)))
     = 0
   \<and> (\<exists>cam'. cameraRef (updateMovement 0.05 (sampleWorld\<lparr>keysRef := {''KeyW'', ''ShiftLeft''}\<rparr>))
          = Some cam'
        \<and> vec_z (cameraPosition cam') = 24.063)"
  using updateMovement_horizontal
    [of "sampleWorld\<lparr>keysRef := {''KeyW'', ''ShiftLeft''}\<rparr>" mountedCamera "0.05"]
  by (auto simp: sampleWorld_def mountedCamera_def vector0_def Let_def intent_forward_sprint
      MOVE_SPEED_def SPRINT_MULTIPLIER_def)

section \<open>Falling to the floor in binary64 arithmetic\<close>

subsection \<open>Rounding\<close>

lemma roundEven_close: "\<bar>of_int (roundEven t) - t\<bar> \<le> 1 / 2"
  unfolding roundEven_def Let_def by (auto; linarith)

lemma roundEven_nonpos: "t \<le> 0 \<Longrightarrow> roundEven t \<le> 0"
  unfolding roundEven_def Let_def by (auto; linarith)

lemma roundEven_nonneg: "0 \<le> t \<Longrightarrow> 0 \<le> roundEven t"
  unfolding roundEven_def Let_def by (auto; linarith)

lemma roundEven_near: "\<bar>t\<bar> < 1 / 2 \<Longrightarrow> roundEven (of_int k + t) = k"
proof (cases "0 \<le> t")
  case True
  assume "\<bar>t\<bar> < 1 / 2"
  with True have "\<lfloor>of_int k + t\<rfloor> = k" by (intro floor_unique) auto
  with True \<open>\<bar>t\<bar> < 1 / 2\<close> show ?thesis by (simp add: roundEven_def Let_def)
next
  case False
  assume "\<bar>t\<bar> < 1 / 2"
  with False have "\<lfloor>of_int k + t\<rfloor> = k - 1" by (intro floor_unique) auto
  with False \<open>\<bar>t\<bar> < 1 / 2\<close> show ?thesis by (simp add: roundEven_def Let_def)
qed

lemma ulpOf_pos: "0 < ulpOf x"
  by (simp add: ulpOf_def)

lemma pow2_floor_log_le: "x \<noteq> 0 \<Longrightarrow> 2 powr of_int \<lfloor>log 2 \<bar>x\<bar>\<rfloor> \<le> \<bar>x\<bar>"
proof -
  assume "x \<noteq> 0"
  then have p: "0 < \<bar>x\<bar>" by simp
  have "2 powr of_int \<lfloor>log 2 \<bar>x\<bar>\<rfloor> \<le> 2 powr log 2 \<bar>x\<bar>"
    by (intro powr_mono) auto
  also have "\<dots> = \<bar>x\<bar>" using p by simp
  finally show ?thesis .
qed

lemma denormalUlp_small: "0 < denormalUlp" "denormalUlp \<le> 2 powr (- 60)"
  unfolding denormalUlp_def by (simp, intro powr_mono, simp_all)

lemma ulpOf_le: "x \<noteq> 0 \<Longrightarrow> ulpOf x \<le> \<bar>x\<bar> * 2 powr (- 52) + denormalUlp"
proof -
  assume x: "x \<noteq> 0"
  show ?thesis
  proof (cases "\<lfloor>log 2 \<bar>x\<bar>\<rfloor> \<le> - 1022")
    case True
    then have "exponentOf x = - 1022" by (simp add: exponentOf_def)
    then have "ulpOf x = 2 powr (of_int (- 1022) - 52)" by (simp only: ulpOf_def)
    moreover have "(of_int (- 1022) - 52 :: real) = - 1074" by simp
    ultimately have "ulpOf x = denormalUlp" by (simp only: denormalUlp_def)
    moreover have "0 \<le> \<bar>x\<bar> * 2 powr (- 52)" by simp
    ultimately show ?thesis by linarith
  next
    case False
    then have "exponentOf x = \<lfloor>log 2 \<bar>x\<bar>\<rfloor>" by (simp add: exponentOf_def)
    then have "ulpOf x = 2 powr of_int \<lfloor>log 2 \<bar>x\<bar>\<rfloor> * 2 powr (- 52)"
      by (simp only: ulpOf_def diff_conv_add_uminus powr_add)
    also have "\<dots> \<le> \<bar>x\<bar> * 2 powr (- 52)"
      by (intro mult_right_mono pow2_floor_log_le [OF x]) simp
    finally show ?thesis using denormalUlp_small(1) by linarith
  qed
qed

lemma roundToDouble_close: "\<bar>roundToDouble x - x\<bar> \<le> ulpOf x / 2"
proof (cases "x = 0")
  case True
  then show ?thesis using ulpOf_pos [of x] by (simp add: roundToDouble_def)
next
  case False
  let ?u = "ulpOf x"
  have u: "0 < ?u" by (rule ulpOf_pos)
  have "roundToDouble x - x = ?u * (of_int (roundEven (x / ?u)) - x / ?u)"
    using False u by (simp add: roundToDouble_def algebra_simps)
  then have "\<bar>roundToDouble x - x\<bar> = ?u * \<bar>of_int (roundEven (x / ?u)) - x / ?u\<bar>"
    using u by (simp add: abs_mult)
  also have "\<dots> \<le> ?u * (1 / 2)"
    using u by (intro mult_left_mono roundEven_close) simp
  finally show ?thesis by simp
qed

text \<open>The rounding error on values of magnitude at most \<open>2 ^ 14\<close>.\<close>

lemma roundToDouble_error:
  assumes "\<bar>x\<bar> \<le> 2 ^ 14"
  shows "\<bar>roundToDouble x - x\<bar> \<le> 1 / 2 ^ 38"
proof (cases "x = 0")
  case True
  then show ?thesis by (simp add: roundToDouble_def)
next
  case False
  have p52: "(2::real) powr (- 52) = 1 / 2 ^ 52" and p60: "(2::real) powr (- 60) = 1 / 2 ^ 60"
    by (simp_all add: powr_minus_divide)
  have "ulpOf x \<le> \<bar>x\<bar> * (1 / 2 ^ 52) + 1 / 2 ^ 60"
    using ulpOf_le [OF False] denormalUlp_small(2) unfolding p52 p60 by linarith
  also have "\<dots> \<le> 2 ^ 14 * (1 / 2 ^ 52) + 1 / 2 ^ 60"
    using assms by simp
  finally have "ulpOf x \<le> 1 / 2 ^ 37" by simp
  with roundToDouble_close [of x] show ?thesis by simp
qed

lemma roundToDouble_nonpos: "x \<le> 0 \<Longrightarrow> roundToDouble x \<le> 0"
proof -
  assume "x \<le> 0"
  then have "x / ulpOf x \<le> 0" using ulpOf_pos [of x] by (simp add: divide_nonpos_pos)
  then have "roundEven (x / ulpOf x) \<le> 0" by (rule roundEven_nonpos)
  then show ?thesis using ulpOf_pos [of x]
    by (simp add: roundToDouble_def mult_nonneg_nonpos)
qed

lemma roundToDouble_nonneg: "0 \<le> x \<Longrightarrow> 0 \<le> roundToDouble x"
proof -
  assume "0 \<le> x"
  then have "0 \<le> x / ulpOf x" using ulpOf_pos [of x] by simp
  then have "0 \<le> roundEven (x / ulpOf x)" by (rule roundEven_nonneg)
  then show ?thesis using ulpOf_pos [of x]
    by (simp add: roundToDouble_def)
qed

lemma overflowBound_big: "2 ^ 60 \<le> overflowBound"
proof -
  have "(2::real) powr 60 \<le> 2 powr 1024" by (intro powr_mono) simp_all
  moreover have "(2::real) powr 60 = 2 ^ 60" by simp
  ultimately show ?thesis by (simp only: overflowBound_def)
qed

lemma rnd64_Num:
  assumes "\<bar>roundToDouble x\<bar> \<le> 2 ^ 59"
  shows "rnd64 x = Num (roundToDouble x)"
proof -
  have lt: "(2::real) ^ 59 < 2 ^ 60" by simp
  have "\<not> overflowBound \<le> roundToDouble x" "\<not> roundToDouble x \<le> - overflowBound"
    using assms overflowBound_big lt by linarith+
  then show ?thesis by (simp add: rnd64_def Let_def)
qed

lemma rnd64_small:
  assumes "\<bar>x\<bar> \<le> 2 ^ 14"
  shows "rnd64 x = Num (roundToDouble x)"
proof -
  have "\<bar>roundToDouble x\<bar> \<le> \<bar>x\<bar> + 1 / 2 ^ 38"
    using roundToDouble_error [OF assms] by linarith
  with assms have "\<bar>roundToDouble x\<bar> \<le> 2 ^ 59" by simp
  then show ?thesis by (rule rnd64_Num)
qed

lemma floor_log2: "2 powr of_int k \<le> x \<Longrightarrow> x < 2 powr of_int (k + 1) \<Longrightarrow> \<lfloor>log 2 x\<rfloor> = k"
proof -
  assume a: "2 powr of_int k \<le> x" and b: "x < 2 powr of_int (k + 1)"
  have "0 < (2::real) powr of_int k" by simp
  with a have "0 < x" by linarith
  then show ?thesis using a b by (simp add: floor_log_eq_powr_iff)
qed

lemma absorbed:
  assumes "- 4 \<le> d" and "d \<le> 0"
  shows "roundToDouble (100000000000000000 + d) = 100000000000000000"
proof -
  let ?x = "100000000000000000 + d :: real"
  have pos: "0 < ?x" using assms by simp
  have "(2::real) powr of_int 56 \<le> ?x" "?x < 2 powr of_int (56 + 1)"
    using assms by simp_all
  then have "\<lfloor>log 2 ?x\<rfloor> = 56" by (rule floor_log2)
  then have "exponentOf ?x = 56" using pos by (simp add: exponentOf_def)
  then have u: "ulpOf ?x = 16" by (simp add: ulpOf_def)
  have e: "?x / 16 = of_int 6250000000000000 + d / 16" by simp
  have "roundEven (?x / 16) = 6250000000000000"
    unfolding e using assms by (intro roundEven_near) simp
  with u pos show ?thesis by (simp add: roundToDouble_def)
qed

lemma roundToDouble_eval:
  assumes "2 powr of_int k \<le> \<bar>x\<bar>" and "\<bar>x\<bar> < 2 powr of_int (k + 1)" and "- 1022 \<le> k"
  shows "roundToDouble x = 2 powr (of_int k - 52) * of_int (roundEven (x / 2 powr (of_int k - 52)))"
proof -
  have "\<lfloor>log 2 \<bar>x\<bar>\<rfloor> = k" using assms(1,2) by (rule floor_log2)
  then have "exponentOf x = k" using assms(3) by (simp add: exponentOf_def)
  then have u: "ulpOf x = 2 powr (of_int k - 52)" by (simp add: ulpOf_def)
  have "0 < (2::real) powr of_int k" by simp
  with assms(1) have "x \<noteq> 0" by auto
  with u show ?thesis by (simp add: roundToDouble_def)
qed

lemma literal_0_05: "rnd64 0.05 = Num (3602879701896397 / 2 ^ 56)"
proof -
  have "roundToDouble 0.05
      = 2 powr (of_int (- 5) - 52) * of_int (roundEven (0.05 / 2 powr (of_int (- 5) - 52)))"
    by (rule roundToDouble_eval) (simp_all add: powr_minus_divide)
  also have "(2::real) powr (of_int (- 5) - 52) = 1 / 2 ^ 57" by (simp add: powr_minus_divide)
  also have "roundEven (0.05 / (1 / 2 ^ 57)) = 7205759403792794"
    by (simp add: roundEven_def Let_def)
  finally have r: "roundToDouble 0.05 = 3602879701896397 / 2 ^ 56" by simp
  then have "rnd64 0.05 = Num (roundToDouble 0.05)" by (intro rnd64_Num) simp
  with r show ?thesis by simp
qed

text \<open>
  Two checks of the rounding against JavaScript: the literal \<^verbatim>\<open>0.05\<close> above, and
  \<^verbatim>\<open>0.1 + 0.2\<close>, which is \<^verbatim>\<open>0.30000000000000004\<close> (a tie, rounded to even).
\<close>

lemma literal_0_1: "rnd64 0.1 = Num (3602879701896397 / 2 ^ 55)"
proof -
  have "roundToDouble 0.1
      = 2 powr (of_int (- 4) - 52) * of_int (roundEven (0.1 / 2 powr (of_int (- 4) - 52)))"
    by (rule roundToDouble_eval) (simp_all add: powr_minus_divide)
  also have "(2::real) powr (of_int (- 4) - 52) = 1 / 2 ^ 56" by (simp add: powr_minus_divide)
  also have "roundEven (0.1 / (1 / 2 ^ 56)) = 7205759403792794"
    by (simp add: roundEven_def Let_def)
  finally have r: "roundToDouble 0.1 = 3602879701896397 / 2 ^ 55" by simp
  then have "rnd64 0.1 = Num (roundToDouble 0.1)" by (intro rnd64_Num) simp
  with r show ?thesis by simp
qed

lemma literal_0_2: "rnd64 0.2 = Num (3602879701896397 / 2 ^ 54)"
proof -
  have "roundToDouble 0.2
      = 2 powr (of_int (- 3) - 52) * of_int (roundEven (0.2 / 2 powr (of_int (- 3) - 52)))"
    by (rule roundToDouble_eval) (simp_all add: powr_minus_divide)
  also have "(2::real) powr (of_int (- 3) - 52) = 1 / 2 ^ 55" by (simp add: powr_minus_divide)
  also have "roundEven (0.2 / (1 / 2 ^ 55)) = 7205759403792794"
    by (simp add: roundEven_def Let_def)
  finally have r: "roundToDouble 0.2 = 3602879701896397 / 2 ^ 54" by simp
  then have "rnd64 0.2 = Num (roundToDouble 0.2)" by (intro rnd64_Num) simp
  with r show ?thesis by simp
qed

lemma sum_0_1_0_2: "fadd (rnd64 0.1) (rnd64 0.2) = Num (5404319552844596 / 2 ^ 54)"
proof -
  let ?s = "3602879701896397 / 2 ^ 55 + 3602879701896397 / 2 ^ 54 :: real"
  have "roundToDouble ?s
      = 2 powr (of_int (- 2) - 52) * of_int (roundEven (?s / 2 powr (of_int (- 2) - 52)))"
    by (rule roundToDouble_eval) (simp_all add: powr_minus_divide)
  also have "(2::real) powr (of_int (- 2) - 52) = 1 / 2 ^ 54" by (simp add: powr_minus_divide)
  also have "roundEven (?s / (1 / 2 ^ 54)) = 5404319552844596"
    by (simp add: roundEven_def Let_def)
  finally have r: "roundToDouble ?s = 5404319552844596 / 2 ^ 54" by simp
  then have "rnd64 ?s = Num (roundToDouble ?s)" by (intro rnd64_Num) simp
  with r show ?thesis unfolding literal_0_1 literal_0_2 by simp
qed

lemma roundEven_of_int: "roundEven (of_int m) = m"
  using roundEven_near [of 0 m] by simp

text \<open>A number with at most 53 significant bits is its own rounding.\<close>

lemma roundToDouble_exact:
  assumes "2 powr of_int k \<le> \<bar>x\<bar>" and "\<bar>x\<bar> < 2 powr of_int (k + 1)" and "- 1022 \<le> k"
    and "x / 2 powr (of_int k - 52) = of_int m"
  shows "roundToDouble x = x"
proof -
  have "roundToDouble x = 2 powr (of_int k - 52) * of_int (roundEven (x / 2 powr (of_int k - 52)))"
    using assms(1-3) by (rule roundToDouble_eval)
  also have "\<dots> = 2 powr (of_int k - 52) * (x / 2 powr (of_int k - 52))"
    by (simp only: assms(4) roundEven_of_int)
  also have "\<dots> = x" by simp
  finally show ?thesis .
qed

subsection \<open>One tick\<close>

lemma roundToDouble_near:
  assumes "\<bar>x\<bar> \<le> 16384"
  shows "\<bar>roundToDouble x - x\<bar> \<le> 1 / 274877906944"
  using roundToDouble_error [of x] assms by simp

lemma rnd64_near:
  assumes "\<bar>x\<bar> \<le> 16384"
  shows "rnd64 x = Num (roundToDouble x)"
  using rnd64_small [of x] assms by simp

text \<open>Line 115 and the product of line 119, on numbers in the range of the claim.\<close>

lemma velocity_step:
  assumes "0 < delta" and "delta \<le> 1 / 16" and "- 48 \<le> v" and "v \<le> 0"
  shows "\<exists>v' d. fmax (fsub (Num v) (fmul (Num 30) (Num delta))) (Num (- 48)) = Num v'
           \<and> fmul (Num v') (Num delta) = Num d
           \<and> - 48 \<le> v' \<and> v' \<le> 0 \<and> - 4 \<le> d \<and> d \<le> 0
           \<and> (1 / 1048576 \<le> delta \<longrightarrow> d \<le> - 6 / 274877906944)"
proof -
  define a where "a = roundToDouble (30 * delta)"
  define w where "w = roundToDouble (v - a)"
  define v' where "v' = max w (- 48)"
  define d where "d = roundToDouble (v' * delta)"
  have ra: "\<bar>30 * delta\<bar> \<le> 16384" using assms(1,2) by simp
  have A: "fmul (Num 30) (Num delta) = Num a"
    using rnd64_near [OF ra] by (simp add: a_def)
  have ea: "\<bar>a - 30 * delta\<bar> \<le> 1 / 274877906944"
    using roundToDouble_near [OF ra] by (simp add: a_def)
  have a0: "0 \<le> a" unfolding a_def using assms(1) by (intro roundToDouble_nonneg) simp
  have a2: "a \<le> 2" using ea assms(2) by linarith
  have rw: "\<bar>v - a\<bar> \<le> 16384" using a0 a2 assms(3,4) by linarith
  have W: "fsub (Num v) (Num a) = Num w"
    using rnd64_near [OF rw] by (simp add: fsub_def w_def)
  have ew: "\<bar>w - (v - a)\<bar> \<le> 1 / 274877906944"
    using roundToDouble_near [OF rw] by (simp add: w_def)
  have w0: "w \<le> 0" unfolding w_def using a0 assms(4) by (intro roundToDouble_nonpos) simp
  have V: "fmax (Num w) (Num (- 48)) = Num v'" by (simp add: v'_def)
  have v1: "- 48 \<le> v'" and v2: "v' \<le> 0" using w0 by (simp_all add: v'_def)
  have p1: "- 3 \<le> v' * delta"
  proof -
    have "- 48 * delta \<le> v' * delta" using v1 assms(1) by (intro mult_right_mono) simp_all
    with assms(2) show ?thesis by linarith
  qed
  have p2: "v' * delta \<le> 0" using v2 assms(1) by (simp add: mult_nonpos_nonneg)
  have rp: "\<bar>v' * delta\<bar> \<le> 16384" using p1 p2 by linarith
  have D: "fmul (Num v') (Num delta) = Num d"
    using rnd64_near [OF rp] by (simp add: d_def)
  have ed: "\<bar>d - v' * delta\<bar> \<le> 1 / 274877906944"
    using roundToDouble_near [OF rp] by (simp add: d_def)
  have d0: "d \<le> 0" unfolding d_def using p2 by (rule roundToDouble_nonpos)
  have d4: "- 4 \<le> d" using ed p1 by linarith
  have fast: "d \<le> - 6 / 274877906944" if lo: "1 / 1048576 \<le> delta"
  proof -
    have "29 / 1048576 \<le> a" using ea lo by linarith
    then have "w \<le> - 28 / 1048576" using ew assms(4) by linarith
    then have v3: "v' \<le> - 28 / 1048576" by (simp add: v'_def)
    have "v' * delta \<le> (- 28 / 1048576) * delta"
      using v3 assms(1) by (intro mult_right_mono) simp_all
    also have "\<dots> \<le> (- 28 / 1048576) * (1 / 1048576)"
      using lo by (intro mult_left_mono_neg) simp_all
    finally have "v' * delta \<le> - 28 / 1099511627776" by simp
    with ed show ?thesis by linarith
  qed
  from A W V D v1 v2 d4 d0 fast show ?thesis by auto
qed

lemma falling_step:
  assumes "1 / 1048576 \<le> delta" and "delta \<le> 1 / 16"
    and "3 \<le> y" and "y \<le> 10000" and "- 48 \<le> v" and "v \<le> 0"
  shows "updateVertical64 (Num delta) \<lparr>cameraY64 = Num y, velocityY64 = Num v\<rparr>
           = \<lparr>cameraY64 = Num 3, velocityY64 = Num 0\<rparr>
         \<or> (\<exists>y' v'. updateVertical64 (Num delta) \<lparr>cameraY64 = Num y, velocityY64 = Num v\<rparr>
                        = \<lparr>cameraY64 = Num y', velocityY64 = Num v'\<rparr>
                \<and> 3 \<le> y' \<and> y' \<le> y - 5 / 274877906944 \<and> - 48 \<le> v' \<and> v' \<le> 0)"
proof -
  have pos: "0 < delta" using assms(1) by simp
  from velocity_step [OF pos assms(2,5,6)] assms(1)
  obtain v' d where V: "fmax (fsub (Num v) (fmul (Num 30) (Num delta))) (Num (- 48)) = Num v'"
    and D: "fmul (Num v') (Num delta) = Num d"
    and v': "- 48 \<le> v'" "v' \<le> 0" and d: "- 4 \<le> d" "d \<le> - 6 / 274877906944"
    by blast
  define y1 where "y1 = roundToDouble (y + d)"
  have rs: "\<bar>y + d\<bar> \<le> 16384" using assms(3,4) d by linarith
  have S: "fadd (Num y) (Num d) = Num y1" using rnd64_near [OF rs] by (simp add: y1_def)
  have es: "\<bar>y1 - (y + d)\<bar> \<le> 1 / 274877906944"
    using roundToDouble_near [OF rs] by (simp add: y1_def)
  have down: "y1 \<le> y - 5 / 274877906944" using es d(2) by linarith
  have eq: "updateVertical64 (Num delta) \<lparr>cameraY64 = Num y, velocityY64 = Num v\<rparr>
      = (if y1 < 3 then \<lparr>cameraY64 = Num 3, velocityY64 = Num 0\<rparr>
         else \<lparr>cameraY64 = Num y1, velocityY64 = Num v'\<rparr>)"
    by (simp add: updateVertical64_def Let_def GRAVITY_def TERMINAL_VELOCITY_def V D S
        del: fmul.simps fadd.simps fmax.simps)
  show ?thesis
  proof (cases "y1 < 3")
    case True
    with eq show ?thesis by simp
  next
    case False
    with eq down v' show ?thesis by auto
  qed
qed

lemma stuck_step:
  assumes "0 < delta" and "delta \<le> 1 / 16" and "- 48 \<le> v" and "v \<le> 0"
  shows "\<exists>v'. updateVertical64 (Num delta) \<lparr>cameraY64 = Num (100000000000000000), velocityY64 = Num v\<rparr>
                 = \<lparr>cameraY64 = Num (100000000000000000), velocityY64 = Num v'\<rparr>
              \<and> - 48 \<le> v' \<and> v' \<le> 0"
proof -
  from velocity_step [OF assms]
  obtain v' d where V: "fmax (fsub (Num v) (fmul (Num 30) (Num delta))) (Num (- 48)) = Num v'"
    and D: "fmul (Num v') (Num delta) = Num d"
    and v': "- 48 \<le> v'" "v' \<le> 0" and d: "- 4 \<le> d" "d \<le> 0"
    by blast
  have r: "roundToDouble (100000000000000000 + d) = 100000000000000000" using d by (rule absorbed)
  then have "rnd64 (100000000000000000 + d) = Num (roundToDouble (100000000000000000 + d))"
    by (intro rnd64_Num) simp
  with r have S: "fadd (Num (100000000000000000)) (Num d) = Num (100000000000000000)" by simp
  have "updateVertical64 (Num delta) \<lparr>cameraY64 = Num (100000000000000000), velocityY64 = Num v\<rparr>
      = \<lparr>cameraY64 = Num (100000000000000000), velocityY64 = Num v'\<rparr>"
    by (simp add: updateVertical64_def Let_def GRAVITY_def TERMINAL_VELOCITY_def V D S
        del: fmul.simps fadd.simps fmax.simps)
  with v' show ?thesis by blast
qed

text \<open>
  With \<open>delta\<close> 2 to the power \<open>- 30\<close>, the tick on the floor adds less than half the
  spacing of the numbers below 3 to the height: the camera stays at 3, the clamp does
  not fire and the velocity is left at \<open>- 30 * delta\<close>.
\<close>

lemma tiny_delta_step:
  "updateVertical64 (Num (1 / 2 ^ 30)) \<lparr>cameraY64 = Num 3, velocityY64 = Num 0\<rparr>
     = \<lparr>cameraY64 = Num 3, velocityY64 = Num (- (30 / 2 ^ 30))\<rparr>"
proof -
  have a: "roundToDouble (30 * (1 / 2 ^ 30)) = 30 / 2 ^ 30"
    using roundToDouble_exact [of "- 26" "30 * (1 / 2 ^ 30)" "30 * 2 ^ 48"]
    by (simp add: powr_minus_divide)
  have A: "fmul (Num 30) (Num (1 / 2 ^ 30)) = Num (30 / 2 ^ 30)"
    using rnd64_Num [of "30 * (1 / 2 ^ 30)"] a by simp
  have w: "roundToDouble (0 - 30 / 2 ^ 30) = - (30 / 2 ^ 30)"
    using roundToDouble_exact [of "- 26" "0 - 30 / 2 ^ 30" "- (30 * 2 ^ 48)"]
    by (simp add: powr_minus_divide)
  have W: "fsub (Num 0) (Num (30 / 2 ^ 30)) = Num (- (30 / 2 ^ 30))"
    using rnd64_Num [of "0 - 30 / 2 ^ 30"] w by (simp add: fsub_def)
  have V: "fmax (Num (- (30 / 2 ^ 30))) (Num (- 48)) = Num (- (30 / 2 ^ 30))" by simp
  have d: "roundToDouble (- (30 / 2 ^ 30) * (1 / 2 ^ 30)) = - (30 / 2 ^ 60)"
    using roundToDouble_exact [of "- 56" "- (30 / 2 ^ 30) * (1 / 2 ^ 30)" "- (30 * 2 ^ 48)"]
    by (simp add: powr_minus_divide)
  have D: "fmul (Num (- (30 / 2 ^ 30))) (Num (1 / 2 ^ 30)) = Num (- (30 / 2 ^ 60))"
    using rnd64_Num [of "- (30 / 2 ^ 30) * (1 / 2 ^ 30)"] d by simp
  have "roundToDouble (3 + - (30 / 2 ^ 60))
      = 2 powr (of_int 1 - 52) * of_int (roundEven ((3 + - (30 / 2 ^ 60)) / 2 powr (of_int 1 - 52)))"
    by (rule roundToDouble_eval) simp_all
  also have "(2::real) powr (of_int 1 - 52) = 1 / 2 ^ 51" by (simp add: powr_minus_divide)
  also have "(3 + - (30 / 2 ^ 60)) / (1 / 2 ^ 51) = of_int (3 * 2 ^ 51) + - (30 / 2 ^ 9 :: real)"
    by simp
  also have "roundEven (of_int (3 * 2 ^ 51) + - (30 / 2 ^ 9)) = 3 * 2 ^ 51"
    by (rule roundEven_near) simp
  finally have s: "roundToDouble (3 + - (30 / 2 ^ 60)) = 3" by simp
  have S: "fadd (Num 3) (Num (- (30 / 2 ^ 60))) = Num 3"
    using rnd64_Num [of "3 + - (30 / 2 ^ 60)"] s by simp
  show ?thesis
    by (simp only: updateVertical64_def Let_def GRAVITY_def TERMINAL_VELOCITY_def
        vertical64.select_convs A W V D S fless.simps)
      simp
qed


subsection \<open>Many ticks\<close>

lemma rest64_fixed:
  assumes "1 / 1048576 \<le> delta" and "delta \<le> 1 / 16"
  shows "updateVertical64 (Num delta) rest64 = rest64"
  using falling_step [OF assms, of 3 0] by (auto simp: rest64_def)

lemma rest64_forever:
  assumes "1 / 1048576 \<le> delta" and "delta \<le> 1 / 16"
  shows "(updateVertical64 (Num delta) ^^ n) rest64 = rest64"
  by (induction n) (simp_all add: rest64_fixed [OF assms])

lemma falls64:
  assumes "1 / 1048576 \<le> delta" and "delta \<le> 1 / 16"
  shows "3 \<le> y \<Longrightarrow> y \<le> 10000 \<Longrightarrow> - 48 \<le> v \<Longrightarrow> v \<le> 0
     \<Longrightarrow> y - 3 < real n * (5 / 274877906944)
     \<Longrightarrow> \<exists>k. (updateVertical64 (Num delta) ^^ k) \<lparr>cameraY64 = Num y, velocityY64 = Num v\<rparr> = rest64"
proof (induction n arbitrary: y v)
  case 0
  then show ?case by simp
next
  case (Suc n)
  let ?f = "updateVertical64 (Num delta)"
  let ?s = "\<lparr>cameraY64 = Num y, velocityY64 = Num v\<rparr>"
  from falling_step [OF assms Suc.prems(1-4)]
  consider "?f ?s = rest64"
    | y' v' where "?f ?s = \<lparr>cameraY64 = Num y', velocityY64 = Num v'\<rparr>"
        "3 \<le> y'" "y' \<le> y - 5 / 274877906944" "- 48 \<le> v'" "v' \<le> 0"
    by (auto simp: rest64_def)
  then show ?case
  proof cases
    case 1
    then have "(?f ^^ 1) ?s = rest64" by simp
    then show ?thesis by blast
  next
    case 2
    have "y' \<le> 10000" using 2(3) Suc.prems(2) by linarith
    moreover have "y' - 3 < real n * (5 / 274877906944)"
      using 2(3) Suc.prems(5) by (simp add: algebra_simps)
    ultimately obtain k where "(?f ^^ k) \<lparr>cameraY64 = Num y', velocityY64 = Num v'\<rparr> = rest64"
      using Suc.IH [OF 2(2) _ 2(4,5)] by blast
    with 2(1) have "(?f ^^ Suc k) ?s = rest64" by (simp add: funpow_swap1)
    then show ?thesis by blast
  qed
qed


lemma stuck_forever:
  assumes "0 < delta" and "delta \<le> 1 / 16"
  shows "\<exists>v. (updateVertical64 (Num delta) ^^ n)
                \<lparr>cameraY64 = Num 100000000000000000, velocityY64 = Num 0\<rparr>
              = \<lparr>cameraY64 = Num 100000000000000000, velocityY64 = Num v\<rparr>
            \<and> - 48 \<le> v \<and> v \<le> 0"
proof (induction n)
  case 0
  then show ?case by simp
next
  case (Suc n)
  then obtain v where v: "(updateVertical64 (Num delta) ^^ n)
                \<lparr>cameraY64 = Num 100000000000000000, velocityY64 = Num 0\<rparr>
              = \<lparr>cameraY64 = Num 100000000000000000, velocityY64 = Num v\<rparr>"
    and b: "- 48 \<le> v" "v \<le> 0" by blast
  from stuck_step [OF assms b] v show ?case by simp
qed


lemma never_lands:
  "\<not> (\<exists>N. \<forall>n\<ge>N. (updateVertical64 (rnd64 0.05) ^^ n)
                      \<lparr>cameraY64 = Num 100000000000000000, velocityY64 = Num 0\<rparr>
                    = \<lparr>cameraY64 = Num 3, velocityY64 = Num 0\<rparr>)"
proof
  assume "\<exists>N. \<forall>n\<ge>N. (updateVertical64 (rnd64 0.05) ^^ n)
                      \<lparr>cameraY64 = Num 100000000000000000, velocityY64 = Num 0\<rparr>
                    = \<lparr>cameraY64 = Num 3, velocityY64 = Num 0\<rparr>"
  then obtain N where "(updateVertical64 (rnd64 0.05) ^^ N)
                      \<lparr>cameraY64 = Num 100000000000000000, velocityY64 = Num 0\<rparr>
                    = \<lparr>cameraY64 = Num 3, velocityY64 = Num 0\<rparr>" by blast
  moreover have "0 < (3602879701896397 / 2 ^ 56 :: real)" "(3602879701896397 / 2 ^ 56 :: real) \<le> 1 / 16"
    by simp_all
  note stuck_forever [OF this, of N]
  ultimately show False unfolding literal_0_05 by auto
qed


lemma never_rests:
  "\<not> (\<exists>N. \<forall>n\<ge>N. (updateVertical64 (Num (1 / 2 ^ 30)) ^^ n)
                      \<lparr>cameraY64 = Num 18, velocityY64 = Num 0\<rparr>
                    = \<lparr>cameraY64 = Num 3, velocityY64 = Num 0\<rparr>)"
proof
  let ?f = "updateVertical64 (Num (1 / 2 ^ 30))"
  let ?s = "\<lparr>cameraY64 = Num 18, velocityY64 = Num 0\<rparr>"
  let ?r = "\<lparr>cameraY64 = Num 3, velocityY64 = Num 0\<rparr>"
  assume "\<exists>N. \<forall>n\<ge>N. (?f ^^ n) ?s = ?r"
  then obtain N where "(?f ^^ N) ?s = ?r" and "(?f ^^ Suc N) ?s = ?r" by (meson le_Suc_eq order_refl)
  then have "?f ?r = ?r" by simp
  then show False by (simp only: tiny_delta_step) simp
qed

text \<open>
  C4, as the claim states it, fails on both of its "any". From the height \<open>10\<close> to the
  power 17, with the \<open>delta\<close> of the 50 ms clamp, every tick adds less than half the
  spacing of the numbers around the height, so the camera never moves and never reaches
  the floor. And from the height 18 with \<open>delta\<close> 2 to the power \<open>- 30\<close>, the state cannot
  stay at height 3 with velocity 0, because a tick from that state leaves a non-zero
  velocity.
\<close>

theorem updateVertical64_not_settling:
  "\<not> (\<exists>N. \<forall>n\<ge>N. (updateVertical64 (rnd64 0.05) ^^ n)
                      \<lparr>cameraY64 = Num 100000000000000000, velocityY64 = Num 0\<rparr>
                    = \<lparr>cameraY64 = Num 3, velocityY64 = Num 0\<rparr>)
   \<and> \<not> (\<exists>N. \<forall>n\<ge>N. (updateVertical64 (Num (1 / 2 ^ 30)) ^^ n)
                      \<lparr>cameraY64 = Num 18, velocityY64 = Num 0\<rparr>
                    = \<lparr>cameraY64 = Num 3, velocityY64 = Num 0\<rparr>)"
  using never_lands never_rests by (rule conjI)

text \<open>
  C4, amended: start with the camera above the floor height 3 and at most at height
  10000, with vertical velocity 0, and run the tick again and again with one \<open>delta\<close>
  between 2 to the power \<open>- 20\<close> (just under a microsecond) and a sixteenth of a second
  (which is above the 50 ms clamp), with no jump in between. From some tick on, after
  every tick the camera's Y is exactly 3 and the vertical velocity is 0. The bounds hold
  for every real \<open>y\<close> and \<open>delta\<close> in the range, so for every binary64 number there.
\<close>

theorem updateVertical64_settles:
  assumes "3 < y" and "y \<le> 10000" and "1 / 2 ^ 20 \<le> delta" and "delta \<le> 1 / 16"
  shows "\<exists>N. \<forall>n\<ge>N. (updateVertical64 (Num delta) ^^ n) \<lparr>cameraY64 = Num y, velocityY64 = Num 0\<rparr>
                  = \<lparr>cameraY64 = Num 3, velocityY64 = Num 0\<rparr>"
proof -
  let ?f = "updateVertical64 (Num delta)"
  let ?s = "\<lparr>cameraY64 = Num y, velocityY64 = Num 0\<rparr>"
  have lo: "1 / 1048576 \<le> delta" using assms(3) by simp
  have pos: "(0::real) < 5 / 274877906944" by simp
  obtain m where m: "y - 3 < real m * (5 / 274877906944)"
    using reals_Archimedean3 [OF pos] by blast
  obtain k where k: "(?f ^^ k) ?s = rest64"
    using falls64 [OF lo assms(4) _ assms(2) _ _ m, of 0] assms(1) by auto
  have "\<forall>n\<ge>k. (?f ^^ n) ?s = rest64"
  proof (intro allI impI)
    fix n assume "k \<le> n"
    then obtain j where "n = j + k" by (metis le_add_diff_inverse2)
    then have "(?f ^^ n) ?s = (?f ^^ j) ((?f ^^ k) ?s)" by (simp add: funpow_add)
    with k rest64_forever [OF lo assms(4)] show "(?f ^^ n) ?s = rest64" by simp
  qed
  then show ?thesis unfolding rest64_def by blast
qed


theorem updateVertical64_settles_witness:
  "(3::real) < 18 \<and> (18::real) \<le> 10000
   \<and> rnd64 0.05 = Num (3602879701896397 / 2 ^ 56)
   \<and> (\<exists>N. \<forall>n\<ge>N. (updateVertical64 (rnd64 0.05) ^^ n) \<lparr>cameraY64 = Num 18, velocityY64 = Num 0\<rparr>
                  = \<lparr>cameraY64 = Num 3, velocityY64 = Num 0\<rparr>)"
proof -
  have a: "(3::real) < 18" "(18::real) \<le> 10000" by simp_all
  have d: "1 / 2 ^ 20 \<le> (3602879701896397 / 2 ^ 56 :: real)"
    "(3602879701896397 / 2 ^ 56 :: real) \<le> 1 / 16" by simp_all
  from updateVertical64_settles [OF a d] a literal_0_05 show ?thesis by (simp only: simp_thms)
qed

section \<open>Jumping\<close>

text \<open>
  C5: a \<^verbatim>\<open>Space\<close> key-down while the magnitude of the vertical velocity is above the
  threshold 0.05 leaves the velocity as it was; while the magnitude is below the
  threshold it sets the vertical velocity to the jump speed, which is 12, and leaves
  the horizontal velocity alone.
\<close>

theorem jump_only_at_rest:
  "(\<bar>vec_y (velocityRef s)\<bar> > 0.05 \<longrightarrow> velocityRef (onKeyDown ''Space'' s) = velocityRef s)
   \<and> (\<bar>vec_y (velocityRef s)\<bar> < 0.05 \<longrightarrow>
        velocityRef (onKeyDown ''Space'' s) = (velocityRef s)\<lparr>vec_y := JUMP_FORCE\<rparr>
        \<and> JUMP_FORCE = 12)"
  by (simp add: onKeyDown_def Let_def JUMP_FORCE_def)

theorem jump_only_at_rest_witness:
  "\<bar>vec_y (velocityRef sampleWorld)\<bar> < 0.05
   \<and> vec_y (velocityRef (onKeyDown ''Space'' sampleWorld)) = 12
   \<and> \<bar>vec_y (velocityRef (onKeyDown ''Space'' sampleWorld))\<bar> > 0.05
   \<and> velocityRef (onKeyDown ''Space'' (onKeyDown ''Space'' sampleWorld))
       = velocityRef (onKeyDown ''Space'' sampleWorld)"
  using jump_only_at_rest [of sampleWorld] jump_only_at_rest [of "onKeyDown ''Space'' sampleWorld"]
  by (simp add: sampleWorld_def vector0_def JUMP_FORCE_def)

section \<open>The frame loop\<close>

text \<open>
  C9: whatever the clock reports as the time since the last frame, the \<open>delta\<close> of the
  tick is at most 0.05 s, and it is this \<open>delta\<close> that the frame passes to the movement
  update: apart from the telemetry, the frame leaves the state that
  \<^verbatim>\<open>updateMovement\<close> leaves for it.
\<close>

theorem animate_delta_clamped:
  "frameDelta clockDelta \<le> 0.05
   \<and> animate clockDelta s
       = (updateMovement (frameDelta clockDelta) s)
           \<lparr>lastFrameRef := lastFrameRef (animate clockDelta s),
            sink := sink (animate clockDelta s)\<rparr>"
  by (auto simp: frameDelta_def animate_def Let_def setFps_def setPosition_def publish_def
      split: option.split)

section \<open>Telemetry\<close>

lemma animate_sink:
  "(sink (animate clockDelta s) = sink s \<and> lastFrameRef (animate clockDelta s) = lastFrameRef s)
   \<or> (\<exists>p v. 250 \<le> now s - lastFrameRef s
         \<and> sink (animate clockDelta s) = (now s, Position p) # (now s, Fps v) # sink s
         \<and> lastFrameRef (animate clockDelta s) = now s)"
  by (simp add: animate_def Let_def setFps_def setPosition_def publish_def updateMovement_frame
      split: option.split)

lemma spaced_push: "spaced ts \<Longrightarrow> headIs ts t1 \<Longrightarrow> 250 \<le> t2 - t1 \<Longrightarrow> spaced (t2 # ts)"
  by (cases ts) simp_all

lemma animate_invariant:
  assumes "frameInvariant s"
  shows "frameInvariant (animate clockDelta s)"
  using animate_sink [of clockDelta s]
proof (elim disjE exE conjE)
  assume "sink (animate clockDelta s) = sink s"
    and "lastFrameRef (animate clockDelta s) = lastFrameRef s"
  with assms show ?thesis by (simp add: frameInvariant_def)
next
  fix p v
  assume late: "250 \<le> now s - lastFrameRef s"
    and sk: "sink (animate clockDelta s) = (now s, Position p) # (now s, Fps v) # sink s"
    and lf: "lastFrameRef (animate clockDelta s) = now s"
  from assms have sp: "spaced (timesOf isFps (sink s))"
    and eq: "timesOf isPosition (sink s) = timesOf isFps (sink s)"
    and hd: "headIs (timesOf isFps (sink s)) (lastFrameRef s)"
    by (simp_all add: frameInvariant_def)
  have t: "timesOf isFps (sink (animate clockDelta s)) = now s # timesOf isFps (sink s)"
    and u: "timesOf isPosition (sink (animate clockDelta s)) = now s # timesOf isPosition (sink s)"
    by (simp_all add: sk timesOf_def)
  from spaced_push [OF sp hd late] t u eq lf show ?thesis
    by (simp add: frameInvariant_def)
qed

lemma setBlockCount_frame:
  "timesOf isFps (sink (setBlockCount n s)) = timesOf isFps (sink s)"
  "timesOf isPosition (sink (setBlockCount n s)) = timesOf isPosition (sink s)"
  "lastFrameRef (setBlockCount n s) = lastFrameRef s"
  by (simp_all add: setBlockCount_def publish_def timesOf_def)

lemma removeVoxel_frame:
  "timesOf isFps (sink (removeVoxel h sc s)) = timesOf isFps (sink s)"
  "timesOf isPosition (sink (removeVoxel h sc s)) = timesOf isPosition (sink s)"
  "lastFrameRef (removeVoxel h sc s) = lastFrameRef s"
  by (simp_all add: removeVoxel_def Let_def setBlockCount_frame split: prod.split)

lemma addVoxel_frame:
  "timesOf isFps (sink (addVoxel h sc s)) = timesOf isFps (sink s)"
  "timesOf isPosition (sink (addVoxel h sc s)) = timesOf isPosition (sink s)"
  "lastFrameRef (addVoxel h sc s) = lastFrameRef s"
  by (simp_all add: addVoxel_def Let_def setBlockCount_frame split: option.split)

lemma interact_frame:
  "timesOf isFps (sink (interactWithVoxel m hits s)) = timesOf isFps (sink s)"
  "timesOf isPosition (sink (interactWithVoxel m hits s)) = timesOf isPosition (sink s)"
  "lastFrameRef (interactWithVoxel m hits s) = lastFrameRef s"
  by (simp_all add: interactWithVoxel_def removeVoxel_frame addVoxel_frame split: option.split)

lemma dispatch_invariant: "frameInvariant s \<Longrightarrow> frameInvariant (dispatch e s)"
proof (cases e)
  case (Frame d)
  then show "frameInvariant s \<Longrightarrow> ?thesis" by (simp add: animate_invariant)
next
  case (MouseDown l b hits)
  then show "frameInvariant s \<Longrightarrow> ?thesis"
    by (simp add: frameInvariant_def onMouseDown_def interact_frame)
next
  case (KeyDown c)
  then show "frameInvariant s \<Longrightarrow> ?thesis"
    by (simp add: frameInvariant_def onKeyDown_def Let_def)
next
  case (KeyUp c)
  then show "frameInvariant s \<Longrightarrow> ?thesis"
    by (simp add: frameInvariant_def onKeyUp_def)
next
  case (PointerLockChange l)
  then show "frameInvariant s \<Longrightarrow> ?thesis"
    by (simp add: frameInvariant_def onPointerLockChange_def)
qed

lemma step_invariant: "frameInvariant s \<Longrightarrow> frameInvariant (step te s)"
proof -
  assume "frameInvariant s"
  then have "frameInvariant (s\<lparr>now := fst te\<rparr>)" by (simp add: frameInvariant_def)
  then show ?thesis unfolding step_def by (rule dispatch_invariant)
qed

lemma run_invariant: "frameInvariant s \<Longrightarrow> frameInvariant (run evs s)"
  by (induction evs arbitrary: s) (simp_all add: step_invariant)

lemma removeVoxel_publishes:
  "removeVoxel h sc s \<noteq> s \<Longrightarrow>
   sink (removeVoxel h sc s) = (now s, BlockCount (registrySize (voxelsRef (removeVoxel h sc s)))) # sink s"
  by (auto simp: removeVoxel_def Let_def setBlockCount_def publish_def split: prod.splits if_splits)

lemma addVoxel_publishes:
  "addVoxel h sc s \<noteq> s \<Longrightarrow>
   sink (addVoxel h sc s) = (now s, BlockCount (registrySize (voxelsRef (addVoxel h sc s)))) # sink s"
  by (auto simp: addVoxel_def Let_def setBlockCount_def publish_def split: option.splits if_splits)

lemma interact_publishes:
  "interactWithVoxel m hits s \<noteq> s \<Longrightarrow>
   sink (interactWithVoxel m hits s)
     = (now s, BlockCount (registrySize (voxelsRef (interactWithVoxel m hits s)))) # sink s"
  by (auto simp: interactWithVoxel_def removeVoxel_publishes addVoxel_publishes
      split: option.splits if_splits)

text \<open>
  C7, as the claim states it, fails: the block count is published by the edit itself.
  Two edits 100 ms apart, an add on top of the voxel at \<open>(5, 4, 5)\<close> and then the removal
  of that voxel, publish two block counts 100 ms apart.
\<close>

theorem blockCount_not_throttled:
  "\<not> throttled (sink (run [(0, MouseDown True 2 [hitOn (grassMesh 2 (5, 4, 5)) (0, 1, 0)]),
                            (100, MouseDown True 0 [hitOn (grassMesh 2 (5, 4, 5)) (0, 1, 0)])]
                       sampleWorld))"
  by (simp add: throttled_def timesOf_def step_def onMouseDown_def interactWithVoxel_def
      addVoxel_def removeVoxel_def Let_def setBlockCount_def publish_def sampleWorld_def
      hitOn_def grassMesh_def keyOf_def addCoordinate_def keyFromPosition_simps)

text \<open>
  C7, amended: over every sequence of events, from a state in which the frame loop has
  published nothing yet, consecutive publications of the FPS estimate are at least 250 ms apart, and so are
  consecutive publications of the camera position. The block count is outside the
  throttle: every add or remove that changes the state publishes the new registry size
  at the time of the edit.
\<close>

theorem frame_telemetry_throttled:
  assumes "timesOf isFps (sink s) = []" and "timesOf isPosition (sink s) = []"
  shows "spaced (timesOf isFps (sink (run evs s)))
       \<and> spaced (timesOf isPosition (sink (run evs s)))
       \<and> (interactWithVoxel m hits w \<noteq> w \<longrightarrow>
            sink (interactWithVoxel m hits w)
              = (now w, BlockCount (registrySize (voxelsRef (interactWithVoxel m hits w)))) # sink w)"
proof -
  have "frameInvariant s" using assms by (simp add: frameInvariant_def)
  then have "frameInvariant (run evs s)" by (rule run_invariant)
  then show ?thesis by (simp add: frameInvariant_def interact_publishes)
qed

lemma sample_frames_times:
  "timesOf isFps (sink (run [(300, Frame 0.016), (400, Frame 0.016), (600, Frame 0.2)] sampleWorld))
     = [600, 300]"
  by (simp add: sampleWorld_def step_def animate_def Let_def updateMovement_def
      setFps_def setPosition_def publish_def timesOf_def frameDelta_def)

lemma sample_add_publishes:
  "sink (interactWithVoxel Add [hitOn (grassMesh 2 (5, 4, 5)) (0, 1, 0)] sampleWorld)
     = [(0, BlockCount 4)]"
  by (simp add: interactWithVoxel_def addVoxel_def Let_def setBlockCount_def publish_def
      sampleWorld_def hitOn_def grassMesh_def keyOf_def addCoordinate_def keyFromPosition_simps
      registrySize_def fcard_finsert_if)

theorem frame_telemetry_throttled_witness:
  "sink sampleWorld = []
   \<and> timesOf isFps (sink (run [(300, Frame 0.016), (400, Frame 0.016), (600, Frame 0.2)] sampleWorld))
       = [600, 300]
   \<and> spaced (timesOf isFps (sink (run [(300, Frame 0.016), (400, Frame 0.016), (600, Frame 0.2)] sampleWorld)))
   \<and> spaced (timesOf isPosition (sink (run [(300, Frame 0.016), (400, Frame 0.016), (600, Frame 0.2)] sampleWorld)))
   \<and> interactWithVoxel Add [hitOn (grassMesh 2 (5, 4, 5)) (0, 1, 0)] sampleWorld \<noteq> sampleWorld
   \<and> sink (interactWithVoxel Add [hitOn (grassMesh 2 (5, 4, 5)) (0, 1, 0)] sampleWorld)
       = [(0, BlockCount 4)]"
proof -
  have e: "sink sampleWorld = []" by (simp add: sampleWorld_def)
  have f: "timesOf isFps (sink sampleWorld) = []" and p: "timesOf isPosition (sink sampleWorld) = []"
    by (simp_all add: e timesOf_def)
  have c: "interactWithVoxel Add [hitOn (grassMesh 2 (5, 4, 5)) (0, 1, 0)] sampleWorld \<noteq> sampleWorld"
    using sample_add_publishes e by auto
  from frame_telemetry_throttled [OF f p,
      of "[(300, Frame 0.016), (400, Frame 0.016), (600, Frame 0.2)]" Add
         "[hitOn (grassMesh 2 (5, 4, 5)) (0, 1, 0)]" sampleWorld] c e sample_frames_times
    sample_add_publishes
  show ?thesis by simp
qed

end
